theory Spec2Isabelle
  imports Main "HOL-Library.Word"
begin

unbundle bit_operations_syntax

section \<open>JavaScript numbers used as layer bitmasks\<close>

text \<open>
  Mask layers (\<open>maskLayer\<close>, \<open>influenceLayers\<close>, \<open>_preMaskLayer\<close>) are JavaScript numbers
  holding integers. \<open>!==\<close> compares the numbers themselves; \<open>&\<close> and \<open>~\<close> first convert
  their operands to 32-bit integers (ToInt32) and return a signed 32-bit value; an
  \<open>if (x & y)\<close> tests the result against zero.
\<close>

definition toInt32 :: "int \<Rightarrow> 32 word" where
  "toInt32 n = word_of_int n"

definition js_and :: "int \<Rightarrow> int \<Rightarrow> int" where
  "js_and a b = sint (toInt32 a AND toInt32 b)"

definition js_not :: "int \<Rightarrow> int" where
  "js_not a = sint (NOT (toInt32 a))"

definition truthy :: "int \<Rightarrow> bool" where
  "truthy n = (n \<noteq> 0)"

text \<open>
  \<open>arr[i] = v\<close> on a JavaScript array: a write inside the array replaces the entry, a write
  at or past the end extends the array, leaving holes (\<open>undefined\<close>, here \<open>None\<close>) between.
\<close>

definition js_set :: "'a option list \<Rightarrow> nat \<Rightarrow> 'a \<Rightarrow> 'a option list" where
  "js_set xs i v =
     (if i < length xs then xs[i := Some v]
      else xs @ replicate (i - length xs) None @ [Some v])"

section \<open>Render state\<close>

text \<open>
  The enums and \<open>StencilState\<close> live in the shader module, whose source is missing;
  they are declared here with the members the render pipeline reads and writes.
\<close>

datatype SpriteMaskInteraction = None' | VisibleInsideMask | VisibleOutsideMask

datatype CompareFunction =
  Never | Less | Equal | LessEqual | Greater | NotEqual | GreaterEqual | Always

datatype StencilOperation =
  Keep | Zero | Replace | IncrementSaturate | DecrementSaturate | Invert
  | IncrementWrap | DecrementWrap

record StencilState =
  enabled :: bool
  referenceValue :: int
  writeMask :: int
  compareFunctionFront :: CompareFunction
  compareFunctionBack :: CompareFunction
  passOperationFront :: StencilOperation
  passOperationBack :: StencilOperation

text \<open>
  Objects are referred to by identity: a material, a camera, a component. A coordinate is
  a double, kept as its IEEE-754 bit pattern; no arithmetic on coordinates is modelled.
\<close>

type_synonym Material = nat
type_synonym Camera = nat
type_synonym float64 = "64 word"
type_synonym Vector3 = "float64 \<times> float64 \<times> float64"
type_synonym Vector2 = "float64 \<times> float64"

record SubMesh =
  start :: nat
  count :: nat

section \<open>Render elements\<close>

text \<open>
  \<open>SpriteMaskElement\<close>: \<open>component\<close> is the \<open>SpriteMask\<close> that owns the element,
  \<open>isAdd\<close> the add/remove intent that \<open>SpriteMaskBatcher._drawBatches\<close> turns into
  the stencil operation.
\<close>

record SpriteMaskElement =
  component :: nat
  positions :: "Vector3 list"
  uv :: "Vector2 list"
  material :: Material
  isAdd :: bool
  camera :: Camera

record SpriteMask =
  influenceLayers :: int
  maskElement :: SpriteMaskElement

record Renderer =
  maskInteraction :: SpriteMaskInteraction
  maskLayer :: int
  getMaterial :: Material

text \<open>
  \<open>SpriteElement\<close> as \<open>SpriteBatcher\<close> reads it: \<open>component\<close>, \<open>positions\<close>,
  \<open>material\<close> and \<open>camera\<close>, named apart from the mask element's fields.
\<close>

record SpriteElement =
  spriteComponent :: Renderer
  spritePositions :: "Vector3 list"
  spriteMaterial :: Material
  spriteCamera :: Camera

section \<open>Basic2DBatcher\<close>

record 'e Basic2DBatcher =
  batchedQueue :: "'e option list"
  vertexCount :: nat
  elementCount :: nat

text \<open>
  Modelled from the spec: \<open>Basic2DBatcher.clear\<close>, whose source is missing.
  The spec's batcher state is the queue of pending elements and the running vertex count;
  clearing resets both (and the queue's write index, which \<open>drawSprite\<close> maintains).
\<close>

definition clear :: "'e Basic2DBatcher \<Rightarrow> 'e Basic2DBatcher" where
  "clear b = b\<lparr>batchedQueue := [], vertexCount := 0, elementCount := 0\<rparr>"

text \<open>
  Modelled from the spec: \<open>Basic2DBatcher.flush\<close>, whose source is missing.
  "no-op if queue empty. Otherwise: walk the queue in submission order ... Upload the packed
  buffer to the GPU, then issue one draw call per chunk ... Clear the queue and accumulator
  after flush". The packing, upload and per-chunk drawing is the batcher subclass's part and
  is the parameter \<open>uploadAndDrawQueue\<close>, run on the whole pending queue.
\<close>

definition flush ::
  "('e option list \<Rightarrow> 's \<Rightarrow> 's) \<Rightarrow> 'e Basic2DBatcher \<Rightarrow> 's \<Rightarrow> 'e Basic2DBatcher \<times> 's" where
  "flush uploadAndDrawQueue b s =
     (if batchedQueue b = [] then (b, s)
      else (clear b, uploadAndDrawQueue (batchedQueue b) s))"

text \<open>
  The batcher's bookkeeping is consistent when the write index is the queue's length, the
  queue has no hole, and the accumulator is the vertex total of the pending elements.
\<close>

definition wf_batcher :: "('e \<Rightarrow> nat) \<Rightarrow> 'e Basic2DBatcher \<Rightarrow> bool" where
  "wf_batcher len b \<longleftrightarrow>
     elementCount b = length (batchedQueue b) \<and>
     None \<notin> set (batchedQueue b) \<and>
     vertexCount b = sum_list (map (\<lambda>x. case x of None \<Rightarrow> 0 | Some e \<Rightarrow> len e) (batchedQueue b))"

section \<open>The collaborators and the state of the render pipeline\<close>

text \<open>
  What the pipeline takes from modules whose source is missing is a parameter:
  \<open>MAX_VERTEX_COUNT\<close> is the static \<open>Basic2DBatcher.MAX_VERTEX_COUNT\<close>,
  \<open>maxVertexCount\<close> the budget the mask batcher is constructed with;
  \<open>programIsValid\<close> is \<open>material.shader._getShaderProgram(engine, macros).isValid\<close>;
  \<open>maskUpdateData\<close> and \<open>spriteUpdateData\<close> stand for the batcher's packing step, which
  turns the pending queue into the mesh's sub-meshes and the queue of their representative
  elements, read back by \<open>_drawBatches\<close>.
\<close>

record Env =
  MAX_VERTEX_COUNT :: nat
  maxVertexCount :: nat
  programIsValid :: "Material \<Rightarrow> bool"
  maskUpdateData ::
    "SpriteMaskElement option list \<Rightarrow> SubMesh option list \<times> SpriteMaskElement option list"
  spriteUpdateData ::
    "SpriteElement option list \<Rightarrow> SubMesh option list \<times> SpriteElement option list"

datatype Mesh = MaskMesh | SpriteMesh

text \<open>
  One \<open>drawPrimitive(mesh, subMesh, program)\<close> call, with the stencil state that
  \<open>material.renderState._apply\<close> has applied for it.
\<close>

record DrawCall =
  mesh :: Mesh
  subMesh :: SubMesh
  program :: Material
  appliedStencil :: StencilState

text \<open>
  The state: the fields of \<open>SpriteMaskManager\<close> (\<open>_batcher\<close>, \<open>_allSpriteMasks\<close>,
  \<open>_preMaskLayer\<close>, the static \<open>_tempStencilState\<close>), the stencil state of every material
  (a store, since renderers and masks may share a material), the vertex buffers the mask
  batcher has uploaded (each as the queue packed into it) and the draw calls issued.
\<close>

record State =
  batcher :: "SpriteMaskElement Basic2DBatcher"
  allSpriteMasks :: "SpriteMask list"
  preMaskLayer :: int
  tempStencilState :: StencilState
  stencilStates :: "Material \<Rightarrow> StencilState"
  maskUploads :: "SpriteMaskElement option list list"
  drawCalls :: "DrawCall list"

section \<open>SpriteMaskBatcher\<close>

text \<open>
  \<open>SpriteMaskBatcher._drawBatches\<close>: the loop walks \<open>subMeshes[i]\<close> and \<open>batchedQueue[i]\<close>
  together; a missing sub-mesh or element, or an invalid program, returns from the method.
\<close>

fun maskDrawBatches ::
  "Env \<Rightarrow> SubMesh option list \<Rightarrow> SpriteMaskElement option list \<Rightarrow> State \<Rightarrow> State" where
  "maskDrawBatches env [] queue s = s"
| "maskDrawBatches env (None # subMeshes) queue s = s"
| "maskDrawBatches env (Some sm # subMeshes) [] s = s"
| "maskDrawBatches env (Some sm # subMeshes) (None # queue) s = s"
| "maskDrawBatches env (Some sm # subMeshes) (Some spriteMaskElement # queue) s =
     (let mat = material spriteMaskElement;
          op = (if isAdd spriteMaskElement then IncrementSaturate else DecrementSaturate);
          stencilState = (stencilStates s mat)\<lparr>passOperationFront := op, passOperationBack := op\<rparr>;
          s1 = s\<lparr>stencilStates := (stencilStates s)(mat := stencilState)\<rparr>
      in if \<not> programIsValid env mat then s1
         else maskDrawBatches env subMeshes queue
                (s1\<lparr>drawCalls := drawCalls s1 @
                   [\<lparr>mesh = MaskMesh, subMesh = sm, program = mat,
                     appliedStencil = stencilState\<rparr>]\<rparr>))"

text \<open>
  Modelled from the spec: the upload-and-draw step of the mask batcher's flush, whose
  source is missing: the queue is packed and uploaded, then \<open>_drawBatches\<close> runs on the
  sub-meshes.
\<close>

definition maskUploadAndDrawQueue :: "Env \<Rightarrow> SpriteMaskElement option list \<Rightarrow> State \<Rightarrow> State" where
  "maskUploadAndDrawQueue env queue s =
     (let (subMeshes, representatives) = maskUpdateData env queue
      in maskDrawBatches env subMeshes representatives
           (s\<lparr>maskUploads := maskUploads s @ [queue]\<rparr>))"

text \<open>
  Modelled from the spec: \<open>drawElement(element, camera, op)\<close> of the mask batcher, whose
  source is missing. "if accumulated vertex count + element's vertex count would
  exceed a fixed maximum, first flush(), then append"; the element carries the camera and the
  add/remove intent of the requested stencil operation.
\<close>

definition drawElement ::
  "Env \<Rightarrow> SpriteMaskElement \<Rightarrow> Camera \<Rightarrow> StencilOperation \<Rightarrow> State \<Rightarrow> State" where
  "drawElement env element cam op s =
     (let len = length (positions element);
          (b1, s1) = (if vertexCount (batcher s) + len > maxVertexCount env
                      then flush (maskUploadAndDrawQueue env) (batcher s) s
                      else (batcher s, s));
          e = element\<lparr>isAdd := (op = IncrementSaturate), camera := cam\<rparr>
      in s1\<lparr>batcher := b1\<lparr>vertexCount := vertexCount b1 + len,
                              batchedQueue := js_set (batchedQueue b1) (elementCount b1) e,
                              elementCount := elementCount b1 + 1\<rparr>\<rparr>)"

text \<open>
  Modelled from the spec: \<open>uploadAndDraw(camera)\<close> of the mask batcher, whose source is
  missing: step 4 of the mask diff, "Flush the mask batcher so all
  increment/decrement draws land in the stencil buffer before the renderer itself draws".
\<close>

definition uploadAndDraw :: "Env \<Rightarrow> Camera \<Rightarrow> State \<Rightarrow> State" where
  "uploadAndDraw env cam s =
     (let (b1, s1) = flush (maskUploadAndDrawQueue env) (batcher s) s
      in s1\<lparr>batcher := b1\<rparr>)"

section \<open>SpriteMaskManager\<close>

definition addMask :: "SpriteMask \<Rightarrow> State \<Rightarrow> State" where
  "addMask spriteMask s = s\<lparr>allSpriteMasks := allSpriteMasks s @ [spriteMask]\<rparr>"

definition managerClear :: "State \<Rightarrow> State" where
  "managerClear s = s\<lparr>allSpriteMasks := [], preMaskLayer := 0, batcher := clear (batcher s)\<rparr>"

definition copyStencilState :: "StencilState \<Rightarrow> StencilState \<Rightarrow> StencilState" where
  "copyStencilState scrStencilState dstStencilState =
     dstStencilState\<lparr>enabled := enabled scrStencilState,
                     writeMask := writeMask scrStencilState,
                     referenceValue := referenceValue scrStencilState,
                     compareFunctionFront := compareFunctionFront scrStencilState,
                     compareFunctionBack := compareFunctionBack scrStencilState\<rparr>"

text \<open>The loop of \<open>_processMasksDiff\<close> over the registered masks, in registration order.\<close>

fun processMasks ::
  "Env \<Rightarrow> Camera \<Rightarrow> int \<Rightarrow> int \<Rightarrow> int \<Rightarrow> SpriteMask list \<Rightarrow> State \<Rightarrow> State" where
  "processMasks env cam commonLayer addLayer reduceLayer [] s = s"
| "processMasks env cam commonLayer addLayer reduceLayer (spriteMask # masks) s =
     (if truthy (js_and (influenceLayers spriteMask) commonLayer)
      then processMasks env cam commonLayer addLayer reduceLayer masks s
      else if truthy (js_and (influenceLayers spriteMask) addLayer)
      then processMasks env cam commonLayer addLayer reduceLayer masks
             (drawElement env (maskElement spriteMask) cam IncrementSaturate s)
      else if truthy (js_and (influenceLayers spriteMask) reduceLayer)
      then processMasks env cam commonLayer addLayer reduceLayer masks
             (drawElement env (maskElement spriteMask) cam DecrementSaturate s)
      else processMasks env cam commonLayer addLayer reduceLayer masks s)"

definition processMasksDiff :: "Env \<Rightarrow> Camera \<Rightarrow> Renderer \<Rightarrow> State \<Rightarrow> State" where
  "processMasksDiff env cam renderer s =
     (let preMaskLayer = preMaskLayer s;
          curMaskLayer = maskLayer renderer
      in if preMaskLayer \<noteq> curMaskLayer
         then let commonLayer = js_and preMaskLayer curMaskLayer;
                  addLayer = js_and curMaskLayer (js_not preMaskLayer);
                  reduceLayer = js_and preMaskLayer (js_not curMaskLayer)
              in processMasks env cam commonLayer addLayer reduceLayer (allSpriteMasks s) s
         else s)"

definition preRender :: "Env \<Rightarrow> Camera \<Rightarrow> Renderer \<Rightarrow> State \<Rightarrow> State" where
  "preRender env cam renderer s =
     (if maskInteraction renderer = None' then s
      else
        let mat = getMaterial renderer;
            stencilState = stencilStates s mat;
            s1 = s\<lparr>tempStencilState := copyStencilState stencilState (tempStencilState s)\<rparr>;
            cmp = (if maskInteraction renderer = VisibleInsideMask then LessEqual else Greater);
            s2 = s1\<lparr>stencilStates := (stencilStates s1)
                       (mat := stencilState\<lparr>enabled := True, writeMask := 0,
                                            referenceValue := 1,
                                            compareFunctionBack := cmp,
                                            compareFunctionFront := cmp\<rparr>)\<rparr>;
            s3 = s2\<lparr>batcher := clear (batcher s2)\<rparr>;
            s4 = processMasksDiff env cam renderer s3
        in uploadAndDraw env cam s4)"

definition postRender :: "Renderer \<Rightarrow> State \<Rightarrow> State" where
  "postRender renderer s =
     (if maskInteraction renderer = None' then s
      else
        let s1 = s\<lparr>preMaskLayer := maskLayer renderer\<rparr>;
            mat = getMaterial renderer
        in s1\<lparr>stencilStates := (stencilStates s1)
                  (mat := copyStencilState (tempStencilState s1) (stencilStates s1 mat))\<rparr>)"

section \<open>SpriteBatcher\<close>

text \<open>
  The mask manager of the sprite batcher. \<open>SpriteBatcher._drawBatches\<close> obtains it from
  \<open>SpriteMaskManager.getInstance(engine)\<close> and calls \<open>preRender(renderer, camera)\<close> and
  \<open>postRender(renderer, camera)\<close> on it. The \<open>SpriteMaskManager\<close> above has no
  \<open>getInstance\<close> and its \<open>preRender\<close> takes the camera first: the manager called here is
  another class, whose source is missing. Its two methods are parameters, called with the
  arguments in the order of the call site.
\<close>

record MaskManager =
  instancePreRender :: "Renderer \<Rightarrow> Camera \<Rightarrow> State \<Rightarrow> State"
  instancePostRender :: "Renderer \<Rightarrow> Camera \<Rightarrow> State \<Rightarrow> State"

text \<open>
  \<open>SpriteBatcher._drawBatches\<close>: as for the mask batcher, with the manager's
  \<open>preRender\<close> before the program is fetched and its \<open>postRender\<close> after the draw.
\<close>

fun spriteDrawBatches ::
  "Env \<Rightarrow> MaskManager \<Rightarrow> SubMesh option list \<Rightarrow> SpriteElement option list \<Rightarrow> State
     \<Rightarrow> State" where
  "spriteDrawBatches env maskManager [] queue s = s"
| "spriteDrawBatches env maskManager (None # subMeshes) queue s = s"
| "spriteDrawBatches env maskManager (Some sm # subMeshes) [] s = s"
| "spriteDrawBatches env maskManager (Some sm # subMeshes) (None # queue) s = s"
| "spriteDrawBatches env maskManager (Some sm # subMeshes) (Some spriteElement # queue) s =
     (let renderer = spriteComponent spriteElement;
          cam = spriteCamera spriteElement;
          s1 = instancePreRender maskManager renderer cam s;
          mat = spriteMaterial spriteElement
      in if \<not> programIsValid env mat then s1
         else spriteDrawBatches env maskManager subMeshes queue
                (instancePostRender maskManager renderer cam
                   (s1\<lparr>drawCalls := drawCalls s1 @
                      [\<lparr>mesh = SpriteMesh, subMesh = sm, program = mat,
                        appliedStencil = stencilStates s1 mat\<rparr>]\<rparr>)))"

text \<open>
  Modelled from the spec: the upload-and-draw step of the sprite batcher's flush, whose
  source is missing: the queue is packed and uploaded, then \<open>_drawBatches\<close>
  runs on the sub-meshes.
\<close>

definition spriteUploadAndDrawQueue ::
  "Env \<Rightarrow> MaskManager \<Rightarrow> SpriteElement option list \<Rightarrow> State \<Rightarrow> State" where
  "spriteUploadAndDrawQueue env maskManager queue s =
     (let (subMeshes, representatives) = spriteUpdateData env queue
      in spriteDrawBatches env maskManager subMeshes representatives s)"

text \<open>\<open>SpriteBatcher.drawSprite\<close>, on the batcher and the rest of the state.\<close>

definition drawSprite ::
  "Env \<Rightarrow> MaskManager \<Rightarrow> SpriteElement \<Rightarrow> SpriteElement Basic2DBatcher \<times> State
     \<Rightarrow> SpriteElement Basic2DBatcher \<times> State" where
  "drawSprite env maskManager spriteElement bs =
     (let b = fst bs; s = snd bs;
          len = length (spritePositions spriteElement);
          (b1, s1) = (if vertexCount b + len > MAX_VERTEX_COUNT env
                      then flush (spriteUploadAndDrawQueue env maskManager) b s
                      else (b, s))
      in (b1\<lparr>vertexCount := vertexCount b1 + len,
              batchedQueue := js_set (batchedQueue b1) (elementCount b1) spriteElement,
              elementCount := elementCount b1 + 1\<rparr>, s1))"

section \<open>Observations on the mask pass\<close>

definition maskLen :: "SpriteMaskElement \<Rightarrow> nat" where
  "maskLen e = length (positions e)"

definition spriteLen :: "SpriteElement \<Rightarrow> nat" where
  "spriteLen e = length (spritePositions e)"

text \<open>The stencil operation a queued mask element is drawn with (\<open>_drawBatches\<close>).\<close>

definition elementOp :: "SpriteMaskElement \<Rightarrow> StencilOperation" where
  "elementOp e = (if isAdd e then IncrementSaturate else DecrementSaturate)"

text \<open>
  The stencil mask draws issued by one \<open>preRender\<close> call: the mask elements in the vertex
  buffers that the mask batcher uploads during the call, in order.
\<close>

definition stencilDraws :: "Env \<Rightarrow> Camera \<Rightarrow> Renderer \<Rightarrow> State \<Rightarrow> SpriteMaskElement list" where
  "stencilDraws env cam renderer s =
     List.map_filter (\<lambda>x. x)
       (drop (length (concat (maskUploads s)))
          (concat (maskUploads (preRender env cam renderer s))))"

text \<open>How many of the draws are draws of the mask \<open>m\<close> with the operation \<open>op\<close>.\<close>

definition drawCount :: "StencilOperation \<Rightarrow> SpriteMask \<Rightarrow> SpriteMaskElement list \<Rightarrow> nat" where
  "drawCount op m draws =
     length (filter (\<lambda>e. component e = component (maskElement m) \<and> elementOp e = op) draws)"

text \<open>Registered masks are different objects, each owning its mask element.\<close>

definition distinctMasks :: "SpriteMask list \<Rightarrow> bool" where
  "distinctMasks masks = distinct (map (\<lambda>m. component (maskElement m)) masks)"

text \<open>The sub-meshes drawn so far from a batcher's mesh.\<close>

definition drawn :: "Mesh \<Rightarrow> State \<Rightarrow> SubMesh list" where
  "drawn k s = map subMesh (filter (\<lambda>d. mesh d = k) (drawCalls s))"

text \<open>
  A manager leaves the sprite batcher's draws alone when neither of its methods changes
  the list of sub-meshes drawn from the sprite batcher's mesh.
\<close>

definition keepsSpriteDraws :: "MaskManager \<Rightarrow> bool" where
  "keepsSpriteDraws maskManager \<longleftrightarrow>
     (\<forall>renderer cam s.
        drawn SpriteMesh (instancePreRender maskManager renderer cam s) = drawn SpriteMesh s \<and>
        drawn SpriteMesh (instancePostRender maskManager renderer cam s) = drawn SpriteMesh s)"

text \<open>The five fields of a stencil state that \<open>_copyStencilState\<close> copies.\<close>

definition stencilTest ::
  "StencilState \<Rightarrow> bool \<times> int \<times> int \<times> CompareFunction \<times> CompareFunction" where
  "stencilTest st =
     (enabled st, writeMask st, referenceValue st, compareFunctionFront st,
      compareFunctionBack st)"

text \<open>The mask elements uploaded so far or pending in the mask batcher.\<close>

definition issued :: "State \<Rightarrow> SpriteMaskElement option list" where
  "issued s = concat (maskUploads s) @ batchedQueue (batcher s)"

text \<open>The element as \<open>drawElement\<close> queues it, and the request the loop makes for a mask.\<close>

definition request :: "SpriteMaskElement \<Rightarrow> Camera \<Rightarrow> StencilOperation \<Rightarrow> SpriteMaskElement" where
  "request element cam op = element\<lparr>isAdd := (op = IncrementSaturate), camera := cam\<rparr>"

definition decide ::
  "int \<Rightarrow> int \<Rightarrow> int \<Rightarrow> Camera \<Rightarrow> SpriteMask \<Rightarrow> SpriteMaskElement option" where
  "decide commonLayer addLayer reduceLayer cam m =
     (if truthy (js_and (influenceLayers m) commonLayer) then None
      else if truthy (js_and (influenceLayers m) addLayer)
      then Some (request (maskElement m) cam IncrementSaturate)
      else if truthy (js_and (influenceLayers m) reduceLayer)
      then Some (request (maskElement m) cam DecrementSaturate)
      else None)"

text \<open>The requests of one \<open>preRender\<close> call, in registration order.\<close>

definition requests :: "Camera \<Rightarrow> Renderer \<Rightarrow> State \<Rightarrow> SpriteMaskElement list" where
  "requests cam renderer s =
     (if maskInteraction renderer = None' \<or> preMaskLayer s = maskLayer renderer then []
      else List.map_filter
             (decide (js_and (preMaskLayer s) (maskLayer renderer))
                     (js_and (maskLayer renderer) (js_not (preMaskLayer s)))
                     (js_and (preMaskLayer s) (js_not (maskLayer renderer))) cam)
             (allSpriteMasks s))"

text \<open>
  The state in which \<open>preRender\<close> computes the mask diff: the renderer's stencil state
  saved and forced, the mask batcher cleared.
\<close>

definition stencilSetup :: "Renderer \<Rightarrow> State \<Rightarrow> State" where
  "stencilSetup renderer s =
     s\<lparr>tempStencilState :=
          copyStencilState (stencilStates s (getMaterial renderer)) (tempStencilState s),
        stencilStates := (stencilStates s)
          (getMaterial renderer := (stencilStates s (getMaterial renderer))
             \<lparr>enabled := True, writeMask := 0, referenceValue := 1,
              compareFunctionBack :=
                (if maskInteraction renderer = VisibleInsideMask then LessEqual else Greater),
              compareFunctionFront :=
                (if maskInteraction renderer = VisibleInsideMask then LessEqual else Greater)\<rparr>),
        batcher := clear (batcher s)\<rparr>"

section \<open>ModelMesh\<close>

text \<open>
  The source of \<open>ModelMesh\<close> itself is missing; its test suite and its callers in
  \<open>PrimitiveMesh\<close> are there. The operations below are modelled from the spec (section 4.1), each
  under its own comment, and are checked against the test suite further down.

  An array handed to the mesh is an instance: its identity together with its contents.
  \<open>toBe\<close> in the tests is identity of instances.
\<close>

datatype MeshError = AccessDenied | SizeMismatch

definition message :: "MeshError \<Rightarrow> string" where
  "message e =
     (case e of
        AccessDenied \<Rightarrow> ''Not allowed to access data while accessible is false.''
      | SizeMismatch \<Rightarrow> ''The array provided needs to be the same size as vertex count.'')"

datatype IndexFormat = UInt8 | UInt16 | UInt32

datatype TypedArray =
  Uint8Array "8 word list" | Uint16Array "16 word list" | Uint32Array "32 word list"

datatype Attribute =
  Positions | Colors | Normals | UV | UV1 | UV2 | UV3 | UV4 | UV5 | UV6 | UV7
  | Tangents | Weights | Joints

type_synonym VectorArray = "nat \<times> float64 list list"
type_synonym IndexArray = "nat \<times> TypedArray"

record ModelMesh =
  accessible :: bool
  meshVertexCount :: nat
  vertexCountChanged :: bool
  attributes :: "Attribute \<Rightarrow> VectorArray option"
  changed :: "Attribute \<Rightarrow> bool"
  indices :: "IndexArray option"
  indicesFormat :: "IndexFormat option"
  indicesChanged :: bool
  verticesFloat32 :: "nat option"
  allocated :: nat

definition newModelMesh :: ModelMesh where
  "newModelMesh =
     \<lparr>accessible = True, meshVertexCount = 0, vertexCountChanged = False,
      attributes = (\<lambda>k. None), changed = (\<lambda>k. False), indices = None,
      indicesFormat = None, indicesChanged = False, verticesFloat32 = None, allocated = 0\<rparr>"

definition bits :: "IndexFormat \<Rightarrow> nat" where
  "bits f = (case f of UInt8 \<Rightarrow> 8 | UInt16 \<Rightarrow> 16 | UInt32 \<Rightarrow> 32)"

definition indexValues :: "TypedArray \<Rightarrow> nat list" where
  "indexValues a =
     (case a of Uint8Array xs \<Rightarrow> map unat xs | Uint16Array xs \<Rightarrow> map unat xs
      | Uint32Array xs \<Rightarrow> map unat xs)"

text \<open>The format of the array type passed.\<close>

definition formatOf :: "TypedArray \<Rightarrow> IndexFormat" where
  "formatOf a =
     (case a of Uint8Array xs \<Rightarrow> UInt8 | Uint16Array xs \<Rightarrow> UInt16 | Uint32Array xs \<Rightarrow> UInt32)"

text \<open>
  The spec's other wording, for comparison: "the minimal of {8,16,32} bits that can hold every
  index value".
\<close>

definition minimalFormat :: "nat list \<Rightarrow> IndexFormat" where
  "minimalFormat vs =
     (if list_all (\<lambda>v. v < 2 ^ 8) vs then UInt8
      else if list_all (\<lambda>v. v < 2 ^ 16) vs then UInt16 else UInt32)"

text \<open>
  Modelled from the spec: \<open>ModelMesh.setPositions\<close>. "establishes/changes vertexCount =
  values.length; if vertexCount differs from previous, sets vertexCountChanged"; it requires
  \<open>accessible\<close>, as every setter does, and marks the attribute dirty.
\<close>

definition setPositions :: "VectorArray \<Rightarrow> ModelMesh \<Rightarrow> MeshError + ModelMesh" where
  "setPositions values m =
     (if \<not> accessible m then Inl AccessDenied
      else Inr (m\<lparr>attributes := (attributes m)(Positions := Some values),
                  changed := (changed m)(Positions := True),
                  meshVertexCount := length (snd values),
                  vertexCountChanged :=
                    (vertexCountChanged m \<or> length (snd values) \<noteq> meshVertexCount m)\<rparr>))"

text \<open>
  Modelled from the spec: \<open>ModelMesh.setColors\<close>, \<open>setNormals\<close>, \<open>setUV\<close> ... \<open>setUV7\<close>,
  \<open>setTangents\<close>, \<open>setWeights\<close>, \<open>setJoints\<close> (\<open>setAttribute(kind, values)\<close> in the spec).
  "Requires accessible == true; fails with AccessDenied otherwise", "requires values.length ==
  vertexCount ... fails with SizeMismatch otherwise", "marks that attribute dirty, stores
  reference". The access check comes first: the spec has AccessDenied surfaced on every
  access of a released mesh.
\<close>

definition setAttribute :: "Attribute \<Rightarrow> VectorArray \<Rightarrow> ModelMesh \<Rightarrow> MeshError + ModelMesh" where
  "setAttribute kind values m =
     (if \<not> accessible m then Inl AccessDenied
      else if kind = Positions then setPositions values m
      else if length (snd values) \<noteq> meshVertexCount m then Inl SizeMismatch
      else Inr (m\<lparr>attributes := (attributes m)(kind := Some values),
                  changed := (changed m)(kind := True)\<rparr>))"

text \<open>
  Modelled from the spec: the getters. "requires accessible == true; returns the exact array
  instance last set (identity-preserving - no copy) ...; fails with AccessDenied when
  inaccessible".
\<close>

definition getAttribute :: "Attribute \<Rightarrow> ModelMesh \<Rightarrow> MeshError + VectorArray option" where
  "getAttribute kind m = (if \<not> accessible m then Inl AccessDenied else Inr (attributes m kind))"

definition getIndices :: "ModelMesh \<Rightarrow> MeshError + IndexArray option" where
  "getIndices m = (if \<not> accessible m then Inl AccessDenied else Inr (indices m))"

text \<open>
  Modelled from the spec: \<open>ModelMesh.setIndices\<close>. "null clears indices"; for an array the
  spec gives two readings of the stored width, the minimal width of the values and "the exact
  array type passed". The test suite (\<open>set indices data\<close>) expects \<open>UInt16\<close> and
  \<open>UInt32\<close> for the 16- and 32-bit arrays holding 0, 1, 2, which only the second reading
  gives; it is the one modelled.
\<close>

definition setIndices :: "IndexArray option \<Rightarrow> ModelMesh \<Rightarrow> MeshError + ModelMesh" where
  "setIndices values m =
     (if \<not> accessible m then Inl AccessDenied
      else case values of
             None \<Rightarrow> Inr (m\<lparr>indices := None, indicesChanged := True\<rparr>)
           | Some a \<Rightarrow> Inr (m\<lparr>indices := Some a, indicesFormat := Some (formatOf (snd a)),
                              indicesChanged := True\<rparr>))"

text \<open>
  Modelled from the spec: \<open>ModelMesh.uploadData\<close>. "resets per-attribute dirty flags; if
  vertexCount changed, the interleaved buffer is reallocated ... (identity of the packed buffer
  changes). If releaseCPUCopy is true, sets accessible = false and releases references to the
  source arrays". The packed buffer is kept by its identity only.
\<close>

definition uploadData :: "bool \<Rightarrow> ModelMesh \<Rightarrow> ModelMesh" where
  "uploadData releaseCPUCopy m =
     (let realloc = (vertexCountChanged m \<or> verticesFloat32 m = None);
          m1 = m\<lparr>changed := (\<lambda>k. False), indicesChanged := False,
                 vertexCountChanged := False,
                 verticesFloat32 := (if realloc then Some (allocated m) else verticesFloat32 m),
                 allocated := (if realloc then allocated m + 1 else allocated m)\<rparr>
      in if releaseCPUCopy
         then m1\<lparr>accessible := False, attributes := (\<lambda>k. None), indices := None\<rparr>
         else m1)"

text \<open>A sequence of mesh calls stops at the first one that throws.\<close>

definition andThen ::
  "MeshError + ModelMesh \<Rightarrow> (ModelMesh \<Rightarrow> MeshError + 'a) \<Rightarrow> MeshError + 'a" where
  "andThen r f = (case r of Inl e \<Rightarrow> Inl e | Inr m \<Rightarrow> f m)"

text \<open>The index format stored by a call, if the call succeeds and a format is stored.\<close>

definition storedFormat :: "MeshError + ModelMesh \<Rightarrow> IndexFormat option" where
  "storedFormat r = (case r of Inl e \<Rightarrow> None | Inr m \<Rightarrow> indicesFormat m)"

definition upload :: "bool \<Rightarrow> ModelMesh \<Rightarrow> MeshError + ModelMesh" where
  "upload releaseCPUCopy m = Inr (uploadData releaseCPUCopy m)"

section \<open>Concrete scenes and fixtures\<close>

definition quad :: "Vector3 list" where
  "quad = [(0, 0, 0), (0, 0, 0), (0, 0, 0), (0, 0, 0)]"

definition idleStencil :: StencilState where
  "idleStencil =
     \<lparr>enabled = False, referenceValue = 0, writeMask = 255,
      compareFunctionFront = Always, compareFunctionBack = Always,
      passOperationFront = Keep, passOperationBack = Keep\<rparr>"

text \<open>An environment that packs every pending element into a sub-mesh of its own.\<close>

definition sceneEnv :: "(Material \<Rightarrow> bool) \<Rightarrow> Env" where
  "sceneEnv valid =
     \<lparr>MAX_VERTEX_COUNT = 4096, maxVertexCount = 128, programIsValid = valid,
      maskUpdateData = (\<lambda>q. (map (\<lambda>x. Some \<lparr>start = 0, count = 6\<rparr>) q, q)),
      spriteUpdateData = (\<lambda>q. (map (\<lambda>x. Some \<lparr>start = 0, count = 6\<rparr>) q, q))\<rparr>"

definition sceneMask :: "nat \<Rightarrow> int \<Rightarrow> SpriteMask" where
  "sceneMask ident layers =
     \<lparr>influenceLayers = layers,
      maskElement = \<lparr>component = ident, positions = quad, uv = [], material = ident,
                     isAdd = False, camera = 0\<rparr>\<rparr>"

definition sceneState :: "int \<Rightarrow> SpriteMask list \<Rightarrow> State" where
  "sceneState pre masks =
     \<lparr>batcher = \<lparr>batchedQueue = [], vertexCount = 0, elementCount = 0\<rparr>,
      allSpriteMasks = masks, preMaskLayer = pre, tempStencilState = idleStencil,
      stencilStates = (\<lambda>m. idleStencil), maskUploads = [], drawCalls = []\<rparr>"

definition sceneRenderer :: "SpriteMaskInteraction \<Rightarrow> int \<Rightarrow> Renderer" where
  "sceneRenderer interaction layer =
     \<lparr>maskInteraction = interaction, maskLayer = layer, getMaterial = 100\<rparr>"

definition sceneSprite :: "Material \<Rightarrow> SpriteElement" where
  "sceneSprite mat =
     \<lparr>spriteComponent = sceneRenderer None' 0, spritePositions = quad,
      spriteMaterial = mat, spriteCamera = 0\<rparr>"

text \<open>The fixtures of the mesh test suite: three vertices, and the index arrays 0, 1, 2.\<close>

definition vectors :: "nat \<Rightarrow> nat \<Rightarrow> VectorArray" where
  "vectors ident n = (ident, replicate n [0, 0, 0])"

definition indices8 :: IndexArray where
  "indices8 = (20, Uint8Array [0, 1, 2])"

definition indices16 :: IndexArray where
  "indices16 = (21, Uint16Array [0, 1, 2])"

definition indices32 :: IndexArray where
  "indices32 = (22, Uint32Array [0, 1, 2])"

definition tightEnv :: Env where
  "tightEnv = (sceneEnv (\<lambda>mat. True))\<lparr>MAX_VERTEX_COUNT := 6\<rparr>"

definition onePending :: "SpriteElement Basic2DBatcher" where
  "onePending = \<lparr>batchedQueue = [Some (sceneSprite 5)], vertexCount = 4, elementCount = 1\<rparr>"

text \<open>A manager with no mask to handle, and a manager state with an element left pending.\<close>

definition idleManager :: MaskManager where
  "idleManager =
     \<lparr>instancePreRender = (\<lambda>renderer cam s. s), instancePostRender = (\<lambda>renderer cam s. s)\<rparr>"

definition pendingState :: State where
  "pendingState =
     (sceneState 5 [sceneMask 10 2])
       \<lparr>batcher := \<lparr>batchedQueue = [Some (maskElement (sceneMask 99 7))],
                    vertexCount = 4, elementCount = 1\<rparr>\<rparr>"

definition allValid :: "Material \<Rightarrow> bool" where
  "allValid mat = True"

definition validExcept :: "Material \<Rightarrow> Material \<Rightarrow> bool" where
  "validExcept bad mat = (mat \<noteq> bad)"

section \<open>Bit operations and queue bookkeeping\<close>

lemma toInt32_sint [simp]: "toInt32 (sint w) = w"
  by (simp add: toInt32_def)

lemma truthy_js_and: "truthy (js_and a b) \<longleftrightarrow> toInt32 a AND toInt32 b \<noteq> 0"
  by (simp add: truthy_def js_and_def signed_eq_0_iff)

lemma toInt32_js_and [simp]: "toInt32 (js_and a b) = toInt32 a AND toInt32 b"
  by (simp add: js_and_def)

lemma toInt32_js_not [simp]: "toInt32 (js_not a) = NOT (toInt32 a)"
  by (simp add: js_not_def)

lemma js_and_zero_left [simp]: "js_and 0 b = 0"
  by (simp add: js_and_def toInt32_def)

lemma js_and_zero_right [simp]: "js_and a 0 = 0"
  by (simp add: js_and_def toInt32_def)

lemma js_and_example: "js_and 5 6 = 4 \<and> js_and 6 (js_not 5) = 2 \<and> js_and 5 (js_not 6) = 1"
  by (simp add: js_and_def js_not_def toInt32_def)

lemma js_and_signed: "js_and 4294967295 4294967295 = -1"
  by (simp add: js_and_def toInt32_def)


lemma maskDrawBatches_frame:
  "batcher (maskDrawBatches env subs q s) = batcher s \<and>
   allSpriteMasks (maskDrawBatches env subs q s) = allSpriteMasks s \<and>
   preMaskLayer (maskDrawBatches env subs q s) = preMaskLayer s \<and>
   tempStencilState (maskDrawBatches env subs q s) = tempStencilState s \<and>
   maskUploads (maskDrawBatches env subs q s) = maskUploads s"
  by (induction env subs q s rule: maskDrawBatches.induct) (simp_all add: Let_def)

lemma maskDrawBatches_stencilTest:
  "stencilTest (stencilStates (maskDrawBatches env subs q s) m) = stencilTest (stencilStates s m)"
  by (induction env subs q s rule: maskDrawBatches.induct) (simp_all add: Let_def stencilTest_def)





lemma maskUploadAndDrawQueue_frame:
  "batcher (maskUploadAndDrawQueue env q s) = batcher s \<and>
   allSpriteMasks (maskUploadAndDrawQueue env q s) = allSpriteMasks s \<and>
   preMaskLayer (maskUploadAndDrawQueue env q s) = preMaskLayer s \<and>
   tempStencilState (maskUploadAndDrawQueue env q s) = tempStencilState s \<and>
   maskUploads (maskUploadAndDrawQueue env q s) = maskUploads s @ [q]"
  by (simp add: maskUploadAndDrawQueue_def maskDrawBatches_frame split: prod.splits)

lemma maskUploadAndDrawQueue_stencilTest:
  "stencilTest (stencilStates (maskUploadAndDrawQueue env q s) m) = stencilTest (stencilStates s m)"
  by (simp add: maskUploadAndDrawQueue_def maskDrawBatches_stencilTest split: prod.splits)

lemma wf_batcher_clear: "wf_batcher len (clear b)"
  by (simp add: wf_batcher_def clear_def)

lemma drawElement_frame:
  "allSpriteMasks (drawElement env e cam op s) = allSpriteMasks s \<and>
   preMaskLayer (drawElement env e cam op s) = preMaskLayer s \<and>
   tempStencilState (drawElement env e cam op s) = tempStencilState s"
  by (simp add: drawElement_def flush_def Let_def maskUploadAndDrawQueue_frame)

lemma drawElement_stencilTest:
  "stencilTest (stencilStates (drawElement env e cam op s) m) = stencilTest (stencilStates s m)"
  by (simp add: drawElement_def flush_def Let_def maskUploadAndDrawQueue_stencilTest)

lemma drawElement_wf:
  "wf_batcher maskLen (batcher s) \<Longrightarrow> wf_batcher maskLen (batcher (drawElement env e cam op s))"
  by (simp add: drawElement_def flush_def Let_def wf_batcher_def js_set_def clear_def maskLen_def)

lemma drawElement_issued:
  "wf_batcher maskLen (batcher s) \<Longrightarrow>
   issued (drawElement env e cam op s) = issued s @ [Some (request e cam op)]"
  by (simp add: drawElement_def flush_def Let_def wf_batcher_def js_set_def clear_def
      issued_def request_def maskUploadAndDrawQueue_frame)



lemma processMasks_frame:
  "allSpriteMasks (processMasks env cam c a r masks s) = allSpriteMasks s \<and>
   preMaskLayer (processMasks env cam c a r masks s) = preMaskLayer s \<and>
   tempStencilState (processMasks env cam c a r masks s) = tempStencilState s"
  by (induction masks arbitrary: s) (simp_all add: drawElement_frame)

lemma processMasks_stencilTest:
  "stencilTest (stencilStates (processMasks env cam c a r masks s) m) = stencilTest (stencilStates s m)"
  by (induction masks arbitrary: s) (simp_all add: drawElement_stencilTest)

lemma processMasks_wf:
  "wf_batcher maskLen (batcher s) \<Longrightarrow>
   wf_batcher maskLen (batcher (processMasks env cam c a r masks s))"
  by (induction masks arbitrary: s) (simp_all add: drawElement_wf)

lemma processMasks_issued:
  "wf_batcher maskLen (batcher s) \<Longrightarrow>
   issued (processMasks env cam c a r masks s) =
     issued s @ map Some (List.map_filter (decide c a r cam) masks)"
  by (induction masks arbitrary: s)
     (simp_all add: drawElement_wf drawElement_issued decide_def List.map_filter_simps)

lemma uploadAndDraw_uploads:
  "concat (maskUploads (uploadAndDraw env cam s)) = issued s"
  by (simp add: uploadAndDraw_def flush_def issued_def maskUploadAndDrawQueue_frame)

lemma uploadAndDraw_frame:
  "allSpriteMasks (uploadAndDraw env cam s) = allSpriteMasks s \<and>
   preMaskLayer (uploadAndDraw env cam s) = preMaskLayer s \<and>
   tempStencilState (uploadAndDraw env cam s) = tempStencilState s"
  by (simp add: uploadAndDraw_def flush_def maskUploadAndDrawQueue_frame)

lemma uploadAndDraw_stencilTest:
  "stencilTest (stencilStates (uploadAndDraw env cam s) m) = stencilTest (stencilStates s m)"
  by (simp add: uploadAndDraw_def flush_def maskUploadAndDrawQueue_stencilTest)


lemma processMasksDiff_issued:
  "wf_batcher maskLen (batcher s) \<Longrightarrow> maskInteraction renderer \<noteq> None' \<Longrightarrow>
   issued (processMasksDiff env cam renderer s) = issued s @ map Some (requests cam renderer s)"
  by (simp add: processMasksDiff_def Let_def processMasks_issued requests_def)


lemma preRender_steps:
  "maskInteraction renderer \<noteq> None' \<Longrightarrow>
   preRender env cam renderer s =
     uploadAndDraw env cam (processMasksDiff env cam renderer (stencilSetup renderer s))"
  by (simp add: preRender_def stencilSetup_def Let_def)

lemma stencilSetup_issued: "issued (stencilSetup renderer s) = concat (maskUploads s)"
  by (simp add: issued_def stencilSetup_def clear_def)

lemma stencilSetup_requests: "requests cam renderer (stencilSetup renderer' s) = requests cam renderer s"
  by (simp add: requests_def stencilSetup_def)

lemma stencilSetup_wf: "wf_batcher len (batcher (stencilSetup renderer s))"
  by (simp add: stencilSetup_def wf_batcher_clear)

lemma preRender_uploads:
  "concat (maskUploads (preRender env cam renderer s)) =
     concat (maskUploads s) @ map Some (requests cam renderer s)"
proof (cases "maskInteraction renderer = None'")
  case True
  then show ?thesis by (simp add: preRender_def requests_def)
next
  case False
  then show ?thesis
    by (simp add: preRender_steps uploadAndDraw_uploads processMasksDiff_issued
        stencilSetup_wf stencilSetup_issued stencilSetup_requests)
qed


lemma stencilDraws_requests: "stencilDraws env cam renderer s = requests cam renderer s"
  by (simp add: stencilDraws_def preRender_uploads List.map_filter_def comp_def)

lemma component_request [simp]: "component (request e cam op) = component e"
  by (simp add: request_def)

lemma elementOp_request [simp]:
  "elementOp (request e cam IncrementSaturate) = IncrementSaturate"
  "elementOp (request e cam DecrementSaturate) = DecrementSaturate"
  by (simp_all add: request_def elementOp_def)

lemma drawCount_Nil [simp]: "drawCount op m [] = 0"
  by (simp add: drawCount_def)

lemma drawCount_Cons:
  "drawCount op m (e # es) =
     (if component e = component (maskElement m) \<and> elementOp e = op then 1 else 0)
       + drawCount op m es"
  by (simp add: drawCount_def)

lemma decide_component: "decide c a r cam m' = Some e \<Longrightarrow> component e = component (maskElement m')"
  by (auto simp: decide_def split: if_splits)

lemma drawCount_other:
  "component (maskElement m) \<notin> (\<lambda>m. component (maskElement m)) ` set masks \<Longrightarrow>
   drawCount op m (List.map_filter (decide c a r cam) masks) = 0"
proof (induction masks)
  case Nil
  then show ?case by (simp add: List.map_filter_simps)
next
  case (Cons m' masks)
  then show ?case
    by (cases "decide c a r cam m'")
       (auto simp: List.map_filter_simps drawCount_Cons dest: decide_component)
qed

lemma drawCount_registered:
  "distinctMasks masks \<Longrightarrow> m \<in> set masks \<Longrightarrow>
   drawCount op m (List.map_filter (decide c a r cam) masks) =
     (case decide c a r cam m of None \<Rightarrow> 0 | Some e \<Rightarrow> if elementOp e = op then 1 else 0)"
proof (induction masks)
  case Nil
  then show ?case by simp
next
  case (Cons m' masks)
  show ?case
  proof (cases "m = m'")
    case True
    with Cons.prems have "component (maskElement m) \<notin> (\<lambda>m. component (maskElement m)) ` set masks"
      by (simp add: distinctMasks_def)
    then have "drawCount op m (List.map_filter (decide c a r cam) masks) = 0"
      by (rule drawCount_other)
    with True show ?thesis
      by (cases "decide c a r cam m'")
         (auto simp: List.map_filter_simps drawCount_Cons dest: decide_component)
  next
    case False
    with Cons.prems have in_rest: "m \<in> set masks" and d: "distinctMasks masks"
      and ne: "component (maskElement m') \<noteq> component (maskElement m)"
      by (auto simp: distinctMasks_def)
    from ne have "\<And>e. decide c a r cam m' = Some e \<Longrightarrow> component e \<noteq> component (maskElement m)"
      by (auto dest: decide_component)
    with Cons.IH [OF d in_rest] show ?thesis
      by (cases "decide c a r cam m'") (auto simp: List.map_filter_simps drawCount_Cons)
  qed
qed


lemma decide_cases:
  "decide c a r cam m =
     (if truthy (js_and (influenceLayers m) c) then None
      else if truthy (js_and (influenceLayers m) a)
      then Some (request (maskElement m) cam IncrementSaturate)
      else if truthy (js_and (influenceLayers m) r)
      then Some (request (maskElement m) cam DecrementSaturate)
      else None)"
  by (simp add: decide_def)

lemma set_map_filter: "set (List.map_filter f xs) = {y. \<exists>x \<in> set xs. f x = Some y}"
  by (induction xs) (auto simp: List.map_filter_simps split: option.splits)

lemma distinctMasks_same:
  "distinctMasks masks \<Longrightarrow> m \<in> set masks \<Longrightarrow> m' \<in> set masks \<Longrightarrow>
   component (maskElement m') = component (maskElement m) \<Longrightarrow> m' = m"
  by (auto simp: distinctMasks_def distinct_map dest: inj_onD)

lemma not_requested:
  assumes "distinctMasks masks" and "m \<in> set masks" and "decide c a r cam m = None"
  shows "\<forall>e \<in> set (List.map_filter (decide c a r cam) masks).
           component e \<noteq> component (maskElement m)"
proof
  fix e assume "e \<in> set (List.map_filter (decide c a r cam) masks)"
  then obtain m' where m': "m' \<in> set masks" "decide c a r cam m' = Some e"
    by (auto simp: set_map_filter)
  show "component e \<noteq> component (maskElement m)"
  proof
    assume "component e = component (maskElement m)"
    with m' have "component (maskElement m') = component (maskElement m)"
      by (auto dest: decide_component)
    with assms m' have "m' = m" by (auto dest: distinctMasks_same)
    with m' assms show False by simp
  qed
qed

section \<open>The mask diff\<close>

lemma preRender_None_no_draws:
  "maskInteraction renderer = None' \<Longrightarrow> stencilDraws env cam renderer s = []"
  by (simp add: stencilDraws_requests requests_def)

text \<open>
  C1, as amended. For a renderer whose mask interaction is not \<open>None\<close> and a registry of
  distinct masks, with \<open>prev\<close> the previous mask layer and \<open>cur\<close> the renderer's: if
  \<open>prev = cur\<close>, \<open>preRender\<close> issues no stencil mask draw. Otherwise a registered mask
  that does not intersect the common layer \<open>prev & cur\<close> and intersects
  \<open>toAdd = cur & ~prev\<close> is drawn exactly once, with increment-saturate; one that intersects
  neither the common layer nor \<open>toAdd\<close> and intersects \<open>toRemove = prev & ~cur\<close> is drawn
  exactly once, with decrement-saturate; every other registered mask receives no draw.
\<close>

theorem mask_diff_draws:
  assumes "maskInteraction renderer \<noteq> None'"
    and "distinctMasks (allSpriteMasks s)"
    and "m \<in> set (allSpriteMasks s)"
    and "prev = preMaskLayer s" and "cur = maskLayer renderer"
    and "draws = stencilDraws env cam renderer s"
  shows "(prev = cur \<longrightarrow> draws = []) \<and>
    (prev \<noteq> cur \<and> \<not> truthy (js_and (influenceLayers m) (js_and prev cur)) \<and>
       truthy (js_and (influenceLayers m) (js_and cur (js_not prev))) \<longrightarrow>
       drawCount IncrementSaturate m draws = 1 \<and> drawCount DecrementSaturate m draws = 0) \<and>
    (prev \<noteq> cur \<and> \<not> truthy (js_and (influenceLayers m) (js_and prev cur)) \<and>
       \<not> truthy (js_and (influenceLayers m) (js_and cur (js_not prev))) \<and>
       truthy (js_and (influenceLayers m) (js_and prev (js_not cur))) \<longrightarrow>
       drawCount DecrementSaturate m draws = 1 \<and> drawCount IncrementSaturate m draws = 0) \<and>
    (prev \<noteq> cur \<and> (truthy (js_and (influenceLayers m) (js_and prev cur)) \<or>
       \<not> truthy (js_and (influenceLayers m) (js_and cur (js_not prev))) \<and>
       \<not> truthy (js_and (influenceLayers m) (js_and prev (js_not cur)))) \<longrightarrow>
       drawCount IncrementSaturate m draws = 0 \<and> drawCount DecrementSaturate m draws = 0)"
proof -
  have eq: "draws = requests cam renderer s"
    using assms(6) by (simp add: stencilDraws_requests)
  have same: "prev = cur \<longrightarrow> draws = []"
    unfolding eq using assms(4,5) by (simp add: requests_def)
  have count: "drawCount op m draws =
      (case decide (js_and prev cur) (js_and cur (js_not prev)) (js_and prev (js_not cur)) cam m
       of None \<Rightarrow> 0 | Some e \<Rightarrow> if elementOp e = op then 1 else 0)" if "prev \<noteq> cur" for op
  proof -
    have "draws = List.map_filter
        (decide (js_and prev cur) (js_and cur (js_not prev)) (js_and prev (js_not cur)) cam)
        (allSpriteMasks s)"
      unfolding eq using that assms(1,4,5) by (simp add: requests_def)
    then show ?thesis
      using drawCount_registered [OF assms(2,3)] by simp
  qed
  show ?thesis
    using same by (auto simp: count decide_cases)
qed

text \<open>
  C1, witness: the scene of the claim, \<open>prev = 0b101\<close> and \<open>cur = 0b110\<close>, with masks
  of influence layers \<open>0b010\<close>, \<open>0b001\<close> and \<open>0b100\<close>: one increment draw, one decrement
  draw, no draw.
\<close>

theorem mask_diff_draws_witness:
  "maskInteraction (sceneRenderer VisibleInsideMask 6) \<noteq> None' \<and>
   distinctMasks [sceneMask 10 2, sceneMask 11 1, sceneMask 12 4] \<and>
   drawCount IncrementSaturate (sceneMask 10 2)
     (stencilDraws (sceneEnv allValid) 0 (sceneRenderer VisibleInsideMask 6)
        (sceneState 5 [sceneMask 10 2, sceneMask 11 1, sceneMask 12 4])) = 1 \<and>
   drawCount DecrementSaturate (sceneMask 10 2)
     (stencilDraws (sceneEnv allValid) 0 (sceneRenderer VisibleInsideMask 6)
        (sceneState 5 [sceneMask 10 2, sceneMask 11 1, sceneMask 12 4])) = 0 \<and>
   drawCount DecrementSaturate (sceneMask 11 1)
     (stencilDraws (sceneEnv allValid) 0 (sceneRenderer VisibleInsideMask 6)
        (sceneState 5 [sceneMask 10 2, sceneMask 11 1, sceneMask 12 4])) = 1 \<and>
   drawCount IncrementSaturate (sceneMask 11 1)
     (stencilDraws (sceneEnv allValid) 0 (sceneRenderer VisibleInsideMask 6)
        (sceneState 5 [sceneMask 10 2, sceneMask 11 1, sceneMask 12 4])) = 0 \<and>
   drawCount IncrementSaturate (sceneMask 12 4)
     (stencilDraws (sceneEnv allValid) 0 (sceneRenderer VisibleInsideMask 6)
        (sceneState 5 [sceneMask 10 2, sceneMask 11 1, sceneMask 12 4])) = 0 \<and>
   drawCount DecrementSaturate (sceneMask 12 4)
     (stencilDraws (sceneEnv allValid) 0 (sceneRenderer VisibleInsideMask 6)
        (sceneState 5 [sceneMask 10 2, sceneMask 11 1, sceneMask 12 4])) = 0"
proof -
  let ?r = "sceneRenderer VisibleInsideMask 6"
  let ?s = "sceneState 5 [sceneMask 10 2, sceneMask 11 1, sceneMask 12 4]"
  have r: "maskInteraction ?r \<noteq> None'"
    by (simp add: sceneRenderer_def)
  have d: "distinctMasks (allSpriteMasks ?s)"
    by (simp add: sceneState_def distinctMasks_def sceneMask_def)
  have layers: "preMaskLayer ?s = 5" "maskLayer ?r = 6"
    by (simp_all add: sceneState_def sceneRenderer_def)
  have bits: "js_and 5 6 = 4" "js_and 6 (js_not 5) = 2" "js_and 5 (js_not 6) = 1"
    "\<not> truthy (js_and 2 4)" "truthy (js_and 2 2)"
    "\<not> truthy (js_and 1 4)" "\<not> truthy (js_and 1 2)" "truthy (js_and 1 1)"
    "truthy (js_and 4 4)"
    by (simp_all add: js_and_def js_not_def toInt32_def truthy_def)
  have m: "sceneMask 10 2 \<in> set (allSpriteMasks ?s)" "sceneMask 11 1 \<in> set (allSpriteMasks ?s)"
    "sceneMask 12 4 \<in> set (allSpriteMasks ?s)"
    by (simp_all add: sceneState_def)
  have i: "influenceLayers (sceneMask 10 2) = 2" "influenceLayers (sceneMask 11 1) = 1"
    "influenceLayers (sceneMask 12 4) = 4"
    by (simp_all add: sceneMask_def)
  note t = mask_diff_draws [OF r d _ layers(1) [symmetric] layers(2) [symmetric] refl,
      where env = "sceneEnv allValid" and cam = 0]
  have d': "distinctMasks [sceneMask 10 2, sceneMask 11 1, sceneMask 12 4]"
    using d by (simp add: sceneState_def)
  from t [OF m(1)] t [OF m(2)] t [OF m(3)] r d' show ?thesis
    by (simp add: bits i)
qed

text \<open>
  C1, counterexample to the claim as stated: with \<open>prev = 0b101\<close> and \<open>cur = 0b110\<close>, a
  registered mask with influence layers \<open>0b110\<close> intersects \<open>toAdd = 0b010\<close>, yet it is not
  drawn once with increment-saturate: it also intersects the common layer and is skipped.
\<close>

theorem mask_diff_draws_counterexample:
  "maskInteraction (sceneRenderer VisibleInsideMask 6) \<noteq> None' \<and>
   preMaskLayer (sceneState 5 [sceneMask 10 6]) \<noteq> maskLayer (sceneRenderer VisibleInsideMask 6) \<and>
   sceneMask 10 6 \<in> set (allSpriteMasks (sceneState 5 [sceneMask 10 6])) \<and>
   truthy (js_and (influenceLayers (sceneMask 10 6)) (js_and 6 (js_not 5))) \<and>
   drawCount IncrementSaturate (sceneMask 10 6)
     (stencilDraws (sceneEnv allValid) 0 (sceneRenderer VisibleInsideMask 6)
        (sceneState 5 [sceneMask 10 6])) \<noteq> 1"
  by code_simp

text \<open>
  C2. During \<open>preRender\<close> with \<open>prev \<noteq> cur\<close>, a registered mask whose influence layers
  intersect the common layer \<open>prev & cur\<close> receives no stencil draw at all, whatever its
  intersection with the add and remove layers (masks registered are distinct objects).
\<close>

theorem common_layer_precedence:
  assumes "distinctMasks (allSpriteMasks s)"
    and "m \<in> set (allSpriteMasks s)"
    and "preMaskLayer s \<noteq> maskLayer renderer"
    and "truthy (js_and (influenceLayers m) (js_and (preMaskLayer s) (maskLayer renderer)))"
  shows "\<forall>e \<in> set (stencilDraws env cam renderer s). component e \<noteq> component (maskElement m)"
proof (cases "maskInteraction renderer = None'")
  case True
  then show ?thesis by (simp add: stencilDraws_requests requests_def)
next
  case False
  let ?c = "js_and (preMaskLayer s) (maskLayer renderer)"
  let ?a = "js_and (maskLayer renderer) (js_not (preMaskLayer s))"
  let ?r = "js_and (preMaskLayer s) (js_not (maskLayer renderer))"
  have "decide ?c ?a ?r cam m = None"
    using assms(4) by (simp add: decide_cases)
  then have "\<forall>e \<in> set (List.map_filter (decide ?c ?a ?r cam) (allSpriteMasks s)).
               component e \<noteq> component (maskElement m)"
    by (rule not_requested [OF assms(1,2)])
  moreover have "stencilDraws env cam renderer s =
      List.map_filter (decide ?c ?a ?r cam) (allSpriteMasks s)"
    using False assms(3) by (simp add: stencilDraws_requests requests_def)
  ultimately show ?thesis by simp
qed

text \<open>
  C2, witness: a mask with influence layers \<open>0b110\<close> between \<open>prev = 0b101\<close> and
  \<open>cur = 0b110\<close> intersects both the common and the add layer, and is not drawn.
\<close>

theorem common_layer_precedence_witness:
  "distinctMasks (allSpriteMasks (sceneState 5 [sceneMask 10 6, sceneMask 11 5])) \<and>
   sceneMask 10 6 \<in> set (allSpriteMasks (sceneState 5 [sceneMask 10 6, sceneMask 11 5])) \<and>
   preMaskLayer (sceneState 5 [sceneMask 10 6, sceneMask 11 5])
     \<noteq> maskLayer (sceneRenderer VisibleInsideMask 6) \<and>
   truthy (js_and (influenceLayers (sceneMask 10 6)) (js_and 5 6)) \<and>
   truthy (js_and (influenceLayers (sceneMask 10 6)) (js_and 6 (js_not 5))) \<and>
   component (maskElement (sceneMask 10 6)) \<notin>
     component ` set (stencilDraws (sceneEnv allValid) 0 (sceneRenderer VisibleInsideMask 6)
        (sceneState 5 [sceneMask 10 6, sceneMask 11 5]))"
proof -
  let ?r = "sceneRenderer VisibleInsideMask 6"
  let ?s = "sceneState 5 [sceneMask 10 6, sceneMask 11 5]"
  have d: "distinctMasks (allSpriteMasks ?s)"
    by (simp add: sceneState_def distinctMasks_def sceneMask_def)
  have m: "sceneMask 10 6 \<in> set (allSpriteMasks ?s)"
    by (simp add: sceneState_def)
  have ne: "preMaskLayer ?s \<noteq> maskLayer ?r"
    by (simp add: sceneState_def sceneRenderer_def)
  have bits: "truthy (js_and (influenceLayers (sceneMask 10 6)) (js_and 5 6))"
    "truthy (js_and (influenceLayers (sceneMask 10 6)) (js_and 6 (js_not 5)))"
    by (simp_all add: js_and_def js_not_def toInt32_def truthy_def sceneMask_def)
  have c: "truthy (js_and (influenceLayers (sceneMask 10 6))
      (js_and (preMaskLayer ?s) (maskLayer ?r)))"
    using bits(1) by (simp add: sceneState_def sceneRenderer_def)
  from common_layer_precedence [OF d m ne c, of "sceneEnv allValid" 0] d m ne bits
  show ?thesis by auto
qed

section \<open>Zero layers, restoring the stencil state, pending elements\<close>

lemma truthy_reduce_zero:
  "truthy (js_and i (js_and pre (js_not 0))) \<longleftrightarrow> truthy (js_and i pre)"
  by (simp add: truthy_js_and) (simp add: toInt32_def)

lemma requests_None: "maskInteraction renderer = None' \<Longrightarrow> requests cam renderer s = []"
  by (simp add: requests_def)

lemma requests_same: "preMaskLayer s = maskLayer renderer \<Longrightarrow> requests cam renderer s = []"
  by (simp add: requests_def)

lemma requests_diff:
  "maskInteraction renderer \<noteq> None' \<Longrightarrow> preMaskLayer s \<noteq> maskLayer renderer \<Longrightarrow>
   requests cam renderer s =
     List.map_filter
       (decide (js_and (preMaskLayer s) (maskLayer renderer))
               (js_and (maskLayer renderer) (js_not (preMaskLayer s)))
               (js_and (preMaskLayer s) (js_not (maskLayer renderer))) cam)
       (allSpriteMasks s)"
  by (simp add: requests_def)

lemma zero_influence_not_requested:
  "influenceLayers m = 0 \<Longrightarrow> decide c a r cam m = None"
  by (simp add: decide_cases truthy_def)

lemma requests_not_drawn:
  assumes "distinctMasks (allSpriteMasks s)" and "m \<in> set (allSpriteMasks s)"
    and "\<And>c a r. decide c a r cam m = None"
  shows "\<forall>e \<in> set (requests cam renderer s). component e \<noteq> component (maskElement m)"
proof (cases "maskInteraction renderer = None' \<or> preMaskLayer s = maskLayer renderer")
  case True
  then show ?thesis by (auto simp: requests_def)
next
  case False
  then show ?thesis
    using not_requested [OF assms(1,2) assms(3)] by (simp add: requests_diff)
qed

text \<open>
  C5, as amended. For a renderer with a mask interaction other than \<open>None\<close> and
  \<open>maskLayer = 0\<close>, \<open>preRender\<close> issues no increment draw; it draws each registered
  mask whose influence layers intersect the previous mask layer exactly once, with
  decrement-saturate, and so issues no draw at all when the previous mask layer is 0 as well.
  A registered mask whose influence layers are 0 is not drawn by any \<open>preRender\<close> call
  (masks registered are distinct objects).
\<close>

theorem zero_mask_layer_draws:
  assumes "distinctMasks (allSpriteMasks s)"
    and "m \<in> set (allSpriteMasks s)"
  shows "(maskInteraction renderer \<noteq> None' \<and> maskLayer renderer = 0 \<longrightarrow>
            drawCount IncrementSaturate m (stencilDraws env cam renderer s) = 0 \<and>
            drawCount DecrementSaturate m (stencilDraws env cam renderer s) =
              (if truthy (js_and (influenceLayers m) (preMaskLayer s)) then 1 else 0) \<and>
            (preMaskLayer s = 0 \<longrightarrow> stencilDraws env cam renderer s = [])) \<and>
         (influenceLayers m = 0 \<longrightarrow>
            (\<forall>e \<in> set (stencilDraws env cam renderer s).
               component e \<noteq> component (maskElement m)))"
proof -
  have zero: "\<forall>e \<in> set (stencilDraws env cam renderer s).
      component e \<noteq> component (maskElement m)" if "influenceLayers m = 0"
    unfolding stencilDraws_requests
    using requests_not_drawn [OF assms] that by (simp add: zero_influence_not_requested)
  have layer: "drawCount IncrementSaturate m (stencilDraws env cam renderer s) = 0 \<and>
      drawCount DecrementSaturate m (stencilDraws env cam renderer s) =
        (if truthy (js_and (influenceLayers m) (preMaskLayer s)) then 1 else 0) \<and>
      (preMaskLayer s = 0 \<longrightarrow> stencilDraws env cam renderer s = [])"
    if r: "maskInteraction renderer \<noteq> None'" and l: "maskLayer renderer = 0"
  proof (cases "preMaskLayer s = 0")
    case True
    then show ?thesis
      using l by (simp add: stencilDraws_requests requests_same truthy_def)
  next
    case False
    then have ne: "preMaskLayer s \<noteq> maskLayer renderer" using l by simp
    show ?thesis
      using False
      by (simp add: stencilDraws_requests requests_diff [OF r ne] l
          drawCount_registered [OF assms] decide_cases truthy_reduce_zero)
         (simp add: truthy_def)
  qed
  from zero layer show ?thesis by blast
qed

lemma processMasksDiff_frame:
  "allSpriteMasks (processMasksDiff env cam renderer s) = allSpriteMasks s \<and>
   preMaskLayer (processMasksDiff env cam renderer s) = preMaskLayer s \<and>
   tempStencilState (processMasksDiff env cam renderer s) = tempStencilState s"
  by (simp add: processMasksDiff_def Let_def processMasks_frame)

lemma processMasksDiff_stencilTest:
  "stencilTest (stencilStates (processMasksDiff env cam renderer s) m) =
   stencilTest (stencilStates s m)"
  by (simp add: processMasksDiff_def Let_def processMasks_stencilTest)

lemma stencilTest_copy [simp]: "stencilTest (copyStencilState src dst) = stencilTest src"
  by (simp add: stencilTest_def copyStencilState_def)

lemma preRender_temp:
  "maskInteraction renderer \<noteq> None' \<Longrightarrow>
   stencilTest (tempStencilState (preRender env cam renderer s)) =
   stencilTest (stencilStates s (getMaterial renderer))"
  by (simp add: preRender_steps uploadAndDraw_frame processMasksDiff_frame)
     (simp add: stencilSetup_def)

lemma preRender_frame:
  "allSpriteMasks (preRender env cam renderer s) = allSpriteMasks s \<and>
   preMaskLayer (preRender env cam renderer s) = preMaskLayer s"
proof (cases "maskInteraction renderer = None'")
  case True
  then show ?thesis by (simp add: preRender_def)
next
  case False
  then show ?thesis
    by (simp add: preRender_steps uploadAndDraw_frame processMasksDiff_frame)
       (simp add: stencilSetup_def)
qed

lemma postRender_stencilTest:
  "maskInteraction renderer \<noteq> None' \<Longrightarrow>
   stencilTest (stencilStates (postRender renderer s) (getMaterial renderer)) =
   stencilTest (tempStencilState s)"
  by (simp add: postRender_def Let_def)

lemma postRender_preMaskLayer:
  "maskInteraction renderer \<noteq> None' \<Longrightarrow>
   preMaskLayer (postRender renderer s) = maskLayer renderer"
  by (simp add: postRender_def Let_def)

text \<open>
  C9, as amended. For a renderer whose mask interaction is not \<open>None\<close>, after
  \<open>preRender\<close> followed by \<open>postRender\<close> (with anything in between that leaves
  the manager's scratch stencil state alone) the stored previous mask layer is the
  renderer's mask layer, and the fields \<open>enabled\<close>, \<open>writeMask\<close>, \<open>referenceValue\<close>,
  \<open>compareFunctionFront\<close> and \<open>compareFunctionBack\<close> of the stencil state of the
  renderer's material have the values they had before \<open>preRender\<close>, also when a mask drawn
  in between shares that material. For a renderer with interaction \<open>None\<close> both calls
  return at once and the state, the previous mask layer included, is unchanged.
\<close>

theorem postRender_restores:
  assumes "tempStencilState mid = tempStencilState (preRender env cam renderer s)"
    and "s' = postRender renderer mid"
    and "before = stencilStates s (getMaterial renderer)"
    and "after = stencilStates s' (getMaterial renderer)"
  shows "(maskInteraction renderer \<noteq> None' \<longrightarrow>
            preMaskLayer s' = maskLayer renderer \<and>
            enabled after = enabled before \<and>
            writeMask after = writeMask before \<and>
            referenceValue after = referenceValue before \<and>
            compareFunctionFront after = compareFunctionFront before \<and>
            compareFunctionBack after = compareFunctionBack before) \<and>
         (maskInteraction renderer = None' \<longrightarrow>
            preRender env cam renderer s = s \<and> s' = mid)"
proof -
  have "stencilTest after = stencilTest before \<and> preMaskLayer s' = maskLayer renderer"
    if "maskInteraction renderer \<noteq> None'"
    using that assms
    by (simp add: postRender_stencilTest preRender_temp postRender_preMaskLayer)
  moreover have "preRender env cam renderer s = s \<and> s' = mid"
    if "maskInteraction renderer = None'"
    using that assms(2) by (simp add: postRender_def preRender_def)
  ultimately show ?thesis
    by (auto simp: stencilTest_def)
qed

text \<open>
  C9, witness: a renderer on layer \<open>0b110\<close> after layer \<open>0b101\<close>; the mask that
  leaves scope uses the renderer's material.
\<close>

theorem postRender_restores_witness:
  "maskInteraction (sceneRenderer VisibleOutsideMask 6) \<noteq> None' \<and>
   preMaskLayer (postRender (sceneRenderer VisibleOutsideMask 6)
     (preRender (sceneEnv allValid) 0 (sceneRenderer VisibleOutsideMask 6)
        (sceneState 5 [sceneMask 10 2, sceneMask 100 1]))) = 6 \<and>
   enabled (stencilStates (postRender (sceneRenderer VisibleOutsideMask 6)
     (preRender (sceneEnv allValid) 0 (sceneRenderer VisibleOutsideMask 6)
        (sceneState 5 [sceneMask 10 2, sceneMask 100 1]))) 100) = False \<and>
   writeMask (stencilStates (postRender (sceneRenderer VisibleOutsideMask 6)
     (preRender (sceneEnv allValid) 0 (sceneRenderer VisibleOutsideMask 6)
        (sceneState 5 [sceneMask 10 2, sceneMask 100 1]))) 100) = 255 \<and>
   compareFunctionFront (stencilStates (postRender (sceneRenderer VisibleOutsideMask 6)
     (preRender (sceneEnv allValid) 0 (sceneRenderer VisibleOutsideMask 6)
        (sceneState 5 [sceneMask 10 2, sceneMask 100 1]))) 100) = Always"
proof -
  have r: "maskInteraction (sceneRenderer VisibleOutsideMask 6) \<noteq> None'"
    "maskLayer (sceneRenderer VisibleOutsideMask 6) = 6"
    "getMaterial (sceneRenderer VisibleOutsideMask 6) = 100"
    by (simp_all add: sceneRenderer_def)
  have b: "stencilStates (sceneState 5 [sceneMask 10 2, sceneMask 100 1]) 100 = idleStencil"
    by (simp add: sceneState_def)
  from postRender_restores [OF refl refl refl refl, where renderer = "sceneRenderer VisibleOutsideMask 6"
      and env = "sceneEnv allValid" and cam = 0
      and s = "sceneState 5 [sceneMask 10 2, sceneMask 100 1]"] r
  show ?thesis
    by (simp add: b idleStencil_def)
qed

text \<open>
  C9, counterexample to the claim as stated: for a renderer with mask interaction \<open>None\<close>
  and mask layer 1, \<open>postRender\<close> leaves the stored previous mask layer at 0.
\<close>

theorem postRender_restores_counterexample:
  "preMaskLayer (postRender (sceneRenderer None' 1)
     (preRender (sceneEnv allValid) 0 (sceneRenderer None' 1) (sceneState 0 [])))
   \<noteq> maskLayer (sceneRenderer None' 1)"
  by code_simp

lemma clear_any: "clear b = \<lparr>batchedQueue = [], vertexCount = 0, elementCount = 0\<rparr>"
  by (simp add: clear_def)

lemma preRender_batcher:
  "maskInteraction renderer \<noteq> None' \<Longrightarrow>
   preRender env cam renderer (s\<lparr>batcher := b\<rparr>) = preRender env cam renderer (s\<lparr>batcher := b'\<rparr>)"
  by (simp add: preRender_def Let_def clear_any)

lemma requests_batcher: "requests cam renderer (s\<lparr>batcher := b\<rparr>) = requests cam renderer s"
  by (simp add: requests_def)

lemma request_eq: "request e cam op = e\<lparr>isAdd := isAdd (request e cam op), camera := cam\<rparr>"
  by (simp add: request_def)

lemma decide_origin:
  "decide c a r cam m = Some e \<Longrightarrow> e = (maskElement m)\<lparr>isAdd := isAdd e, camera := cam\<rparr>"
  by (auto simp: decide_cases request_def split: if_splits)

text \<open>
  C10, as amended. A \<open>preRender\<close> call for a renderer whose mask interaction is not
  \<open>None\<close> empties the mask batcher's pending queue before it computes the mask diff: the
  call does what it does on the cleared batcher. A call for a renderer with interaction
  \<open>None\<close> returns at once and leaves the queue as it is. In both cases the stencil draws
  issued by the call are those issued from an empty batcher, and each of them is the element
  of a registered mask outside the common layer, submitted with the call's camera: nothing
  left in the queue by an earlier call is drawn again.
\<close>

theorem pending_queue_not_drawn:
  "(maskInteraction renderer \<noteq> None' \<longrightarrow>
      batchedQueue (clear b) = [] \<and>
      preRender env cam renderer (s\<lparr>batcher := b\<rparr>) =
        preRender env cam renderer (s\<lparr>batcher := clear b\<rparr>)) \<and>
   (maskInteraction renderer = None' \<longrightarrow>
      preRender env cam renderer (s\<lparr>batcher := b\<rparr>) = s\<lparr>batcher := b\<rparr>) \<and>
   stencilDraws env cam renderer (s\<lparr>batcher := b\<rparr>) =
     stencilDraws env cam renderer
       (s\<lparr>batcher := \<lparr>batchedQueue = [], vertexCount = 0, elementCount = 0\<rparr>\<rparr>) \<and>
   (\<forall>e \<in> set (stencilDraws env cam renderer (s\<lparr>batcher := b\<rparr>)).
      \<exists>m \<in> set (allSpriteMasks s).
        e = (maskElement m)\<lparr>isAdd := isAdd e, camera := cam\<rparr> \<and>
        \<not> truthy (js_and (influenceLayers m) (js_and (preMaskLayer s) (maskLayer renderer))))"
proof (intro conjI)
  show "maskInteraction renderer \<noteq> None' \<longrightarrow>
      batchedQueue (clear b) = [] \<and>
      preRender env cam renderer (s\<lparr>batcher := b\<rparr>) =
        preRender env cam renderer (s\<lparr>batcher := clear b\<rparr>)"
    using preRender_batcher [where renderer = renderer and env = env and cam = cam and s = s
        and b = b and b' = "clear b"]
    by (simp add: clear_def)
  show "maskInteraction renderer = None' \<longrightarrow>
      preRender env cam renderer (s\<lparr>batcher := b\<rparr>) = s\<lparr>batcher := b\<rparr>"
    by (simp add: preRender_def)
  show "stencilDraws env cam renderer (s\<lparr>batcher := b\<rparr>) =
     stencilDraws env cam renderer
       (s\<lparr>batcher := \<lparr>batchedQueue = [], vertexCount = 0, elementCount = 0\<rparr>\<rparr>)"
    by (simp add: stencilDraws_requests requests_batcher)
  show "\<forall>e \<in> set (stencilDraws env cam renderer (s\<lparr>batcher := b\<rparr>)).
      \<exists>m \<in> set (allSpriteMasks s).
        e = (maskElement m)\<lparr>isAdd := isAdd e, camera := cam\<rparr> \<and>
        \<not> truthy (js_and (influenceLayers m) (js_and (preMaskLayer s) (maskLayer renderer)))"
  proof
    fix e assume "e \<in> set (stencilDraws env cam renderer (s\<lparr>batcher := b\<rparr>))"
    then have e: "e \<in> set (requests cam renderer s)"
      by (simp add: stencilDraws_requests requests_batcher)
    then have ne: "maskInteraction renderer \<noteq> None'" "preMaskLayer s \<noteq> maskLayer renderer"
      by (auto simp: requests_def split: if_splits)
    from e obtain m where m: "m \<in> set (allSpriteMasks s)"
      "decide (js_and (preMaskLayer s) (maskLayer renderer))
              (js_and (maskLayer renderer) (js_not (preMaskLayer s)))
              (js_and (preMaskLayer s) (js_not (maskLayer renderer))) cam m = Some e"
      by (auto simp: requests_diff [OF ne] set_map_filter)
    from m(2) have "\<not> truthy (js_and (influenceLayers m)
        (js_and (preMaskLayer s) (maskLayer renderer)))"
      by (auto simp: decide_cases split: if_splits)
    with m decide_origin [OF m(2)] show "\<exists>m \<in> set (allSpriteMasks s).
        e = (maskElement m)\<lparr>isAdd := isAdd e, camera := cam\<rparr> \<and>
        \<not> truthy (js_and (influenceLayers m) (js_and (preMaskLayer s) (maskLayer renderer)))"
      by blast
  qed
qed

text \<open>
  C5, witness: previous layer \<open>0b011\<close>, renderer layer 0, masks with influence layers
  \<open>0b001\<close>, 0 and \<open>0b100\<close>; and previous layer 0.
\<close>

theorem zero_mask_layer_draws_witness:
  "distinctMasks (allSpriteMasks (sceneState 3 [sceneMask 10 1, sceneMask 11 0, sceneMask 12 4])) \<and>
   sceneMask 10 1 \<in> set (allSpriteMasks (sceneState 3 [sceneMask 10 1, sceneMask 11 0, sceneMask 12 4])) \<and>
   maskInteraction (sceneRenderer VisibleInsideMask 0) \<noteq> None' \<and>
   maskLayer (sceneRenderer VisibleInsideMask 0) = 0 \<and>
   drawCount IncrementSaturate (sceneMask 10 1)
     (stencilDraws (sceneEnv allValid) 0 (sceneRenderer VisibleInsideMask 0)
        (sceneState 3 [sceneMask 10 1, sceneMask 11 0, sceneMask 12 4])) = 0 \<and>
   drawCount DecrementSaturate (sceneMask 10 1)
     (stencilDraws (sceneEnv allValid) 0 (sceneRenderer VisibleInsideMask 0)
        (sceneState 3 [sceneMask 10 1, sceneMask 11 0, sceneMask 12 4])) = 1 \<and>
   drawCount DecrementSaturate (sceneMask 12 4)
     (stencilDraws (sceneEnv allValid) 0 (sceneRenderer VisibleInsideMask 0)
        (sceneState 3 [sceneMask 10 1, sceneMask 11 0, sceneMask 12 4])) = 0 \<and>
   component (maskElement (sceneMask 11 0)) \<notin>
     component ` set (stencilDraws (sceneEnv allValid) 0 (sceneRenderer VisibleInsideMask 0)
        (sceneState 3 [sceneMask 10 1, sceneMask 11 0, sceneMask 12 4])) \<and>
   stencilDraws (sceneEnv allValid) 0 (sceneRenderer VisibleInsideMask 0)
     (sceneState 0 [sceneMask 10 1]) = []"
proof -
  let ?r = "sceneRenderer VisibleInsideMask 0"
  let ?s = "sceneState 3 [sceneMask 10 1, sceneMask 11 0, sceneMask 12 4]"
  let ?z = "sceneState 0 [sceneMask 10 1]"
  have r: "maskInteraction ?r \<noteq> None'" "maskLayer ?r = 0"
    by (simp_all add: sceneRenderer_def)
  have d: "distinctMasks (allSpriteMasks ?s)" "distinctMasks (allSpriteMasks ?z)"
    by (simp_all add: sceneState_def distinctMasks_def sceneMask_def)
  have m: "sceneMask 10 1 \<in> set (allSpriteMasks ?s)" "sceneMask 11 0 \<in> set (allSpriteMasks ?s)"
    "sceneMask 12 4 \<in> set (allSpriteMasks ?s)" "sceneMask 10 1 \<in> set (allSpriteMasks ?z)"
    by (simp_all add: sceneState_def)
  have i: "influenceLayers (sceneMask 10 1) = 1" "influenceLayers (sceneMask 11 0) = 0"
    "influenceLayers (sceneMask 12 4) = 4" "preMaskLayer ?s = 3" "preMaskLayer ?z = 0"
    by (simp_all add: sceneMask_def sceneState_def)
  have bits: "truthy (js_and 1 3)" "\<not> truthy (js_and 4 3)"
    by (simp_all add: js_and_def toInt32_def truthy_def)
  have a: "drawCount IncrementSaturate (sceneMask 10 1)
        (stencilDraws (sceneEnv allValid) 0 ?r ?s) = 0"
    "drawCount DecrementSaturate (sceneMask 10 1)
        (stencilDraws (sceneEnv allValid) 0 ?r ?s) = 1"
    using zero_mask_layer_draws [OF d(1) m(1), of ?r "sceneEnv allValid" 0] r
    by (simp_all add: i bits)
  have b: "drawCount DecrementSaturate (sceneMask 12 4)
        (stencilDraws (sceneEnv allValid) 0 ?r ?s) = 0"
    using zero_mask_layer_draws [OF d(1) m(3), of ?r "sceneEnv allValid" 0] r
    by (simp add: i bits)
  have c: "component (maskElement (sceneMask 11 0)) \<notin>
      component ` set (stencilDraws (sceneEnv allValid) 0 ?r ?s)"
    using zero_mask_layer_draws [OF d(1) m(2), of ?r "sceneEnv allValid" 0, THEN conjunct2,
        THEN mp, OF i(2)]
    by auto
  have e: "stencilDraws (sceneEnv allValid) 0 ?r ?z = []"
    using zero_mask_layer_draws [OF d(2) m(4), of ?r "sceneEnv allValid" 0] r
    by (simp add: i)
  from a b c e r d(1) m(1) show ?thesis
    by (intro conjI)
qed

text \<open>
  C5, counterexample to the claim as stated: after a renderer with mask layer \<open>0b001\<close>, a
  renderer with \<open>maskLayer = 0\<close> and interaction \<open>VisibleInsideMask\<close> makes
  \<open>preRender\<close> issue a stencil draw: the mask with influence layers \<open>0b001\<close> leaves
  scope and is drawn with decrement-saturate.
\<close>

theorem zero_mask_layer_draws_counterexample:
  "maskInteraction (sceneRenderer VisibleInsideMask 0) \<noteq> None' \<and>
   maskLayer (sceneRenderer VisibleInsideMask 0) = 0 \<and>
   stencilDraws (sceneEnv allValid) 0 (sceneRenderer VisibleInsideMask 0)
     (sceneState 1 [sceneMask 10 1]) \<noteq> [] \<and>
   drawCount DecrementSaturate (sceneMask 10 1)
     (stencilDraws (sceneEnv allValid) 0 (sceneRenderer VisibleInsideMask 0)
        (sceneState 1 [sceneMask 10 1])) = 1"
  by code_simp

text \<open>
  C10, witness: the element of an unregistered mask is pending in the batcher; only the mask
  entering scope is drawn.
\<close>

theorem pending_queue_not_drawn_witness:
  "stencilDraws (sceneEnv allValid) 0 (sceneRenderer VisibleInsideMask 6)
     ((sceneState 5 [sceneMask 10 2])
        \<lparr>batcher := \<lparr>batchedQueue = [Some (maskElement (sceneMask 99 7))],
                     vertexCount = 4, elementCount = 1\<rparr>\<rparr>) =
   [(maskElement (sceneMask 10 2))\<lparr>isAdd := True, camera := 0\<rparr>]"
proof -
  have "stencilDraws (sceneEnv allValid) 0 (sceneRenderer VisibleInsideMask 6)
     ((sceneState 5 [sceneMask 10 2])
        \<lparr>batcher := \<lparr>batchedQueue = [], vertexCount = 0, elementCount = 0\<rparr>\<rparr>) =
   [(maskElement (sceneMask 10 2))\<lparr>isAdd := True, camera := 0\<rparr>]"
    by code_simp
  with pending_queue_not_drawn [where env = "sceneEnv allValid" and cam = 0
      and renderer = "sceneRenderer VisibleInsideMask 6" and s = "sceneState 5 [sceneMask 10 2]"
      and b = "\<lparr>batchedQueue = [Some (maskElement (sceneMask 99 7))], vertexCount = 4,
                elementCount = 1\<rparr>"]
  show ?thesis by simp
qed

text \<open>
  C10, counterexample to the claim as stated: a \<open>preRender\<close> call for a renderer with mask
  interaction \<open>None\<close> does not empty the batcher's pending queue; the element pending before
  the call is pending after it.
\<close>

theorem pending_queue_not_drawn_counterexample:
  "batchedQueue (batcher pendingState) = [Some (maskElement (sceneMask 99 7))] \<and>
   batchedQueue (batcher (preRender (sceneEnv allValid) 0 (sceneRenderer None' 6) pendingState)) =
     [Some (maskElement (sceneMask 99 7))]"
  by code_simp

section \<open>Drawing the batches, submitting sprites\<close>

lemma drawn_drawCalls [simp]:
  "drawn k (s\<lparr>drawCalls := ds\<rparr>) = map subMesh (filter (\<lambda>d. mesh d = k) ds)"
  by (simp add: drawn_def)

lemma drawn_stencilStates [simp]: "drawn k (s\<lparr>stencilStates := f\<rparr>) = drawn k s"
  by (simp add: drawn_def)

lemma drawn_batcher [simp]: "drawn k (s\<lparr>batcher := b\<rparr>) = drawn k s"
  by (simp add: drawn_def)

lemma drawn_maskUploads [simp]: "drawn k (s\<lparr>maskUploads := u\<rparr>) = drawn k s"
  by (simp add: drawn_def)

lemma drawn_tempStencilState [simp]: "drawn k (s\<lparr>tempStencilState := t\<rparr>) = drawn k s"
  by (simp add: drawn_def)

lemma drawn_preMaskLayer [simp]: "drawn k (s\<lparr>preMaskLayer := l\<rparr>) = drawn k s"
  by (simp add: drawn_def)

lemma drawCalls_drawn: "map subMesh (filter (\<lambda>d. mesh d = k) (drawCalls s)) = drawn k s"
  by (simp add: drawn_def)

lemma maskDrawBatches_sprites:
  "drawn SpriteMesh (maskDrawBatches env subs q s) = drawn SpriteMesh s"
  by (induction env subs q s rule: maskDrawBatches.induct)
     (simp_all add: Let_def drawCalls_drawn)

lemma maskUploadAndDrawQueue_sprites:
  "drawn SpriteMesh (maskUploadAndDrawQueue env q s) = drawn SpriteMesh s"
  by (simp add: maskUploadAndDrawQueue_def maskDrawBatches_sprites split: prod.splits)

lemma drawElement_sprites:
  "drawn SpriteMesh (drawElement env e cam op s) = drawn SpriteMesh s"
  by (simp add: drawElement_def flush_def Let_def maskUploadAndDrawQueue_sprites)

lemma processMasks_sprites:
  "drawn SpriteMesh (processMasks env cam c a r masks s) = drawn SpriteMesh s"
  by (induction masks arbitrary: s) (simp_all add: drawElement_sprites)

lemma uploadAndDraw_sprites:
  "drawn SpriteMesh (uploadAndDraw env cam s) = drawn SpriteMesh s"
  by (simp add: uploadAndDraw_def flush_def maskUploadAndDrawQueue_sprites)

lemma preRender_sprites:
  "drawn SpriteMesh (preRender env cam renderer s) = drawn SpriteMesh s"
proof (cases "maskInteraction renderer = None'")
  case True
  then show ?thesis by (simp add: preRender_def)
next
  case False
  then show ?thesis
    by (simp add: preRender_steps uploadAndDraw_sprites processMasksDiff_def Let_def
        processMasks_sprites)
       (simp add: stencilSetup_def)
qed

lemma postRender_drawn: "drawn k (postRender renderer s) = drawn k s"
  by (simp add: postRender_def Let_def)

lemma maskDrawBatches_prefix:
  assumes "length subs = length (pre @ bad # post)"
    and "\<forall>e \<in> set pre. programIsValid env (material e)"
    and "\<not> programIsValid env (material bad)"
  shows "drawn MaskMesh (maskDrawBatches env (map Some subs) (map Some (pre @ bad # post)) s) =
         drawn MaskMesh s @ take (length pre) subs"
  using assms
proof (induction pre arbitrary: subs s)
  case Nil
  then obtain sm rest where "subs = sm # rest" by (cases subs) auto
  with Nil show ?case by (simp add: Let_def)
next
  case (Cons e pre)
  then obtain sm rest where subs: "subs = sm # rest" by (cases subs) auto
  with Cons.prems have len: "length rest = length (pre @ bad # post)" by simp
  show ?case
    using Cons.prems Cons.IH [OF len] by (simp add: subs Let_def drawCalls_drawn)
qed

lemma spriteDrawBatches_prefix:
  assumes "keepsSpriteDraws maskManager"
    and "length subs = length (pre @ bad # post)"
    and "\<forall>e \<in> set pre. programIsValid env (spriteMaterial e)"
    and "\<not> programIsValid env (spriteMaterial bad)"
  shows "drawn SpriteMesh
           (spriteDrawBatches env maskManager (map Some subs) (map Some (pre @ bad # post)) s) =
         drawn SpriteMesh s @ take (length pre) subs"
  using assms(2-)
proof (induction pre arbitrary: subs s)
  case Nil
  then obtain sm rest where "subs = sm # rest" by (cases subs) auto
  with Nil assms(1) show ?case by (simp add: Let_def keepsSpriteDraws_def)
next
  case (Cons e pre)
  then obtain sm rest where subs: "subs = sm # rest" by (cases subs) auto
  with Cons.prems have len: "length rest = length (pre @ bad # post)" by simp
  have pre: "drawn SpriteMesh (instancePreRender maskManager r c t) = drawn SpriteMesh t"
    and post: "drawn SpriteMesh (instancePostRender maskManager r c t) = drawn SpriteMesh t"
    for r c t
    using assms(1) by (simp_all add: keepsSpriteDraws_def)
  show ?case
    using Cons.prems Cons.IH [OF len]
    by (simp add: subs Let_def pre post drawCalls_drawn)
qed

text \<open>
  C3, as amended. In \<open>_drawBatches\<close> of the mask batcher and of the sprite batcher, when
  a chunk's material fails to give a valid program, the method returns: the chunks before the
  first such chunk have been drawn, in order, and neither that chunk nor any chunk after it
  is drawn. For the sprite batcher this is for a mask manager whose \<open>preRender\<close> and
  \<open>postRender\<close> draw nothing from the sprite batcher's mesh.
\<close>

theorem invalid_program_ends_batch:
  assumes "length subs = length (pre @ bad # post)"
    and "\<forall>e \<in> set pre. programIsValid env (material e)"
    and "\<not> programIsValid env (material bad)"
    and "keepsSpriteDraws maskManager"
    and "length subs' = length (pre' @ bad' # post')"
    and "\<forall>e \<in> set pre'. programIsValid env (spriteMaterial e)"
    and "\<not> programIsValid env (spriteMaterial bad')"
  shows "drawn MaskMesh (maskDrawBatches env (map Some subs) (map Some (pre @ bad # post)) s) =
           drawn MaskMesh s @ take (length pre) subs \<and>
         drawn SpriteMesh
           (spriteDrawBatches env maskManager (map Some subs')
              (map Some (pre' @ bad' # post')) s) =
           drawn SpriteMesh s @ take (length pre') subs'"
  using maskDrawBatches_prefix [OF assms(1,2,3)] spriteDrawBatches_prefix [OF assms(4,5,6,7)]
  by simp

text \<open>
  C3, witness: three chunks, the second with an invalid program; only the first is drawn.
\<close>

theorem invalid_program_ends_batch_witness:
  "programIsValid (sceneEnv (validExcept 7)) 5 \<and>
   \<not> programIsValid (sceneEnv (validExcept 7)) 7 \<and>
   programIsValid (sceneEnv (validExcept 7)) 8 \<and>
   keepsSpriteDraws idleManager \<and>
   drawn MaskMesh
     (maskDrawBatches (sceneEnv (validExcept 7))
        [Some \<lparr>start = 0, count = 6\<rparr>, Some \<lparr>start = 6, count = 6\<rparr>,
         Some \<lparr>start = 12, count = 6\<rparr>]
        [Some (maskElement (sceneMask 5 1)), Some (maskElement (sceneMask 7 1)),
         Some (maskElement (sceneMask 8 1))]
        (sceneState 0 [])) = [\<lparr>start = 0, count = 6\<rparr>] \<and>
   drawn SpriteMesh
     (spriteDrawBatches (sceneEnv (validExcept 7)) idleManager
        [Some \<lparr>start = 0, count = 6\<rparr>, Some \<lparr>start = 6, count = 6\<rparr>,
         Some \<lparr>start = 12, count = 6\<rparr>]
        [Some (sceneSprite 5), Some (sceneSprite 7), Some (sceneSprite 8)]
        (sceneState 0 [])) = [\<lparr>start = 0, count = 6\<rparr>]"
proof -
  let ?env = "sceneEnv (validExcept 7)"
  let ?subs = "[\<lparr>start = 0, count = 6\<rparr>, \<lparr>start = 6, count = 6\<rparr>, \<lparr>start = 12, count = 6\<rparr>]"
  have v: "programIsValid ?env 5" "\<not> programIsValid ?env 7" "programIsValid ?env 8"
    by (simp_all add: sceneEnv_def validExcept_def)
  have k: "keepsSpriteDraws idleManager"
    by (simp add: keepsSpriteDraws_def idleManager_def)
  have mats: "material (maskElement (sceneMask 5 1)) = 5" "material (maskElement (sceneMask 7 1)) = 7"
    "spriteMaterial (sceneSprite 5) = 5" "spriteMaterial (sceneSprite 7) = 7"
    by (simp_all add: sceneMask_def sceneSprite_def)
  have h1: "length ?subs =
      length ([maskElement (sceneMask 5 1)] @ maskElement (sceneMask 7 1) # [maskElement (sceneMask 8 1)])"
    by simp
  have h2: "\<forall>e \<in> set [maskElement (sceneMask 5 1)]. programIsValid ?env (material e)"
    using v by (simp add: mats)
  have h3: "\<not> programIsValid ?env (material (maskElement (sceneMask 7 1)))"
    using v by (simp add: mats)
  have h4: "length ?subs = length ([sceneSprite 5] @ sceneSprite 7 # [sceneSprite 8])"
    by simp
  have h5: "\<forall>e \<in> set [sceneSprite 5]. programIsValid ?env (spriteMaterial e)"
    using v by (simp add: mats)
  have h6: "\<not> programIsValid ?env (spriteMaterial (sceneSprite 7))"
    using v by (simp add: mats)
  have d: "drawn MaskMesh (sceneState 0 []) = []" "drawn SpriteMesh (sceneState 0 []) = []"
    by (simp_all add: drawn_def sceneState_def)
  from invalid_program_ends_batch [OF h1 h2 h3 k h4 h5 h6, of "sceneState 0 []"] v k
  show ?thesis by (simp add: d)
qed

text \<open>
  C3, counterexample to the claim as stated: two chunks, the first with an invalid program,
  the second with a valid one; no draw call is issued for the second either.
\<close>

theorem invalid_program_ends_batch_counterexample:
  "\<not> programIsValid (sceneEnv (validExcept 7)) 7 \<and>
   programIsValid (sceneEnv (validExcept 7)) 8 \<and>
   drawCalls
     (maskDrawBatches (sceneEnv (validExcept 7))
        [Some \<lparr>start = 0, count = 6\<rparr>, Some \<lparr>start = 6, count = 6\<rparr>]
        [Some (maskElement (sceneMask 7 1)), Some (maskElement (sceneMask 8 1))]
        (sceneState 0 [])) = []"
  by code_simp

lemma js_set_append: "js_set xs (length xs) v = xs @ [Some v]"
  by (simp add: js_set_def)

text \<open>
  C6. \<open>drawSprite\<close> on a batcher whose bookkeeping is consistent: when the accumulated
  vertex count plus the element's exceeds \<open>MAX_VERTEX_COUNT\<close>, the pending queue is flushed
  first (handed whole to the upload-and-draw step, unless it is empty) and the element then
  is the only pending one; otherwise the element is appended to the pending queue and nothing
  is drawn. In both cases the whole element is the last entry of the queue, once, its full
  vertex count is accounted, and the bookkeeping stays consistent. This holds whatever the
  mask manager called by the upload-and-draw step does.
\<close>

theorem drawSprite_appends:
  assumes "wf_batcher spriteLen b"
    and "drawSprite env maskManager spriteElement (b, s) = (b', s')"
  shows "(vertexCount b + spriteLen spriteElement > MAX_VERTEX_COUNT env \<longrightarrow>
            batchedQueue b' = [Some spriteElement] \<and>
            vertexCount b' = spriteLen spriteElement \<and>
            s' = (if batchedQueue b = [] then s
                  else spriteUploadAndDrawQueue env maskManager (batchedQueue b) s)) \<and>
         (vertexCount b + spriteLen spriteElement \<le> MAX_VERTEX_COUNT env \<longrightarrow>
            batchedQueue b' = batchedQueue b @ [Some spriteElement] \<and>
            vertexCount b' = vertexCount b + spriteLen spriteElement \<and>
            s' = s) \<and>
         wf_batcher spriteLen b'"
proof (cases "vertexCount b + spriteLen spriteElement > MAX_VERTEX_COUNT env")
  case True
  show ?thesis
  proof (cases "batchedQueue b = []")
    case True
    with assms \<open>vertexCount b + spriteLen spriteElement > MAX_VERTEX_COUNT env\<close>
    show ?thesis
      by (auto simp: drawSprite_def flush_def Let_def wf_batcher_def js_set_def spriteLen_def)
  next
    case False
    with assms \<open>vertexCount b + spriteLen spriteElement > MAX_VERTEX_COUNT env\<close>
    show ?thesis
      by (auto simp: drawSprite_def flush_def Let_def wf_batcher_def js_set_def clear_def
          spriteLen_def)
  qed
next
  case False
  with assms show ?thesis
    by (auto simp: drawSprite_def Let_def wf_batcher_def js_set_def spriteLen_def)
qed

text \<open>
  C6, witness: a quad pending and a quad submitted, with a budget of 6 vertices and with a
  budget of 4096.
\<close>

theorem drawSprite_appends_witness:
  "wf_batcher spriteLen onePending \<and>
   vertexCount onePending + spriteLen (sceneSprite 8) > MAX_VERTEX_COUNT tightEnv \<and>
   batchedQueue (fst (drawSprite tightEnv idleManager (sceneSprite 8)
     (onePending, sceneState 0 []))) = [Some (sceneSprite 8)] \<and>
   vertexCount (fst (drawSprite tightEnv idleManager (sceneSprite 8)
     (onePending, sceneState 0 []))) = 4 \<and>
   snd (drawSprite tightEnv idleManager (sceneSprite 8) (onePending, sceneState 0 [])) =
     spriteUploadAndDrawQueue tightEnv idleManager [Some (sceneSprite 5)] (sceneState 0 []) \<and>
   vertexCount onePending + spriteLen (sceneSprite 8) \<le> MAX_VERTEX_COUNT (sceneEnv allValid) \<and>
   batchedQueue (fst (drawSprite (sceneEnv allValid) idleManager (sceneSprite 8)
     (onePending, sceneState 0 []))) = [Some (sceneSprite 5), Some (sceneSprite 8)] \<and>
   vertexCount (fst (drawSprite (sceneEnv allValid) idleManager (sceneSprite 8)
     (onePending, sceneState 0 []))) = 8"
proof -
  have wf: "wf_batcher spriteLen onePending"
    by (simp add: wf_batcher_def onePending_def spriteLen_def sceneSprite_def quad_def)
  have n: "vertexCount onePending = 4" "spriteLen (sceneSprite 8) = 4"
    "MAX_VERTEX_COUNT tightEnv = 6" "MAX_VERTEX_COUNT (sceneEnv allValid) = 4096"
    "batchedQueue onePending = [Some (sceneSprite 5)]"
    by (simp_all add: onePending_def spriteLen_def sceneSprite_def quad_def tightEnv_def
        sceneEnv_def)
  from drawSprite_appends [OF wf surjective_pairing, where env = tightEnv
      and maskManager = idleManager and spriteElement = "sceneSprite 8"
      and s = "sceneState 0 []"]
    drawSprite_appends [OF wf surjective_pairing, where env = "sceneEnv allValid"
      and maskManager = idleManager and spriteElement = "sceneSprite 8"
      and s = "sceneState 0 []"] wf
  show ?thesis by (simp add: n)
qed

section \<open>The mesh data buffer\<close>

lemma formatOf_holds: "list_all (\<lambda>v. v < 2 ^ bits (formatOf a)) (indexValues a)"
proof (cases a)
  case (Uint8Array xs)
  have "unat x < 2 ^ 8" for x :: "8 word"
    using unsigned_less [of x] by simp
  then show ?thesis
    by (simp add: Uint8Array formatOf_def bits_def indexValues_def list_all_iff)
next
  case (Uint16Array xs)
  have "unat x < 2 ^ 16" for x :: "16 word"
    using unsigned_less [of x] by simp
  then show ?thesis
    by (simp add: Uint16Array formatOf_def bits_def indexValues_def list_all_iff)
next
  case (Uint32Array xs)
  have "unat x < 2 ^ 32" for x :: "32 word"
    using unsigned_less [of x] by simp
  then show ?thesis
    by (simp add: Uint32Array formatOf_def bits_def indexValues_def list_all_iff)
qed

text \<open>
  C4, as amended. \<open>setIndices\<close> with an array, on an accessible mesh, stores that array
  instance and the index format of the array type passed: \<open>UInt8\<close> for an 8-bit array,
  \<open>UInt16\<close> for a 16-bit one, \<open>UInt32\<close> for a 32-bit one, whatever the index values.
  The stored width holds every index value; it need not be the minimal such width.
\<close>

theorem setIndices_format:
  assumes "accessible m"
  shows "\<exists>m'. setIndices (Some (ident, a)) m = Inr m' \<and>
           indices m' = Some (ident, a) \<and>
           indicesFormat m' = Some (formatOf a) \<and>
           accessible m' \<and>
           list_all (\<lambda>v. v < 2 ^ bits (formatOf a)) (indexValues a)"
  using assms by (simp add: setIndices_def formatOf_holds)

text \<open>
  C4, witness: the test \<open>set indices data\<close>: the indices 0, 1, 2 set as an 8-bit, then
  a 16-bit, then a 32-bit array give \<open>UInt8\<close>, \<open>UInt16\<close>, \<open>UInt32\<close>.
\<close>

theorem setIndices_format_witness:
  "accessible newModelMesh \<and>
   storedFormat (setIndices (Some indices8) newModelMesh) = Some UInt8 \<and>
   storedFormat (andThen (setIndices (Some indices8) newModelMesh)
                   (setIndices (Some indices16))) = Some UInt16 \<and>
   storedFormat (andThen (andThen (setIndices (Some indices8) newModelMesh)
                   (setIndices (Some indices16))) (setIndices (Some indices32))) = Some UInt32"
proof -
  have a0: "accessible newModelMesh"
    by (simp add: newModelMesh_def)
  from setIndices_format [OF a0, of 20 "Uint8Array [0, 1, 2]"]
  obtain m1 where m1: "setIndices (Some indices8) newModelMesh = Inr m1"
    "indicesFormat m1 = Some UInt8" "accessible m1"
    by (auto simp: indices8_def formatOf_def)
  from setIndices_format [OF m1(3), of 21 "Uint16Array [0, 1, 2]"]
  obtain m2 where m2: "setIndices (Some indices16) m1 = Inr m2"
    "indicesFormat m2 = Some UInt16" "accessible m2"
    by (auto simp: indices16_def formatOf_def)
  from setIndices_format [OF m2(3), of 22 "Uint32Array [0, 1, 2]"]
  obtain m3 where m3: "setIndices (Some indices32) m2 = Inr m3"
    "indicesFormat m3 = Some UInt32"
    by (auto simp: indices32_def formatOf_def)
  from a0 m1 m2 m3 show ?thesis
    by (simp add: storedFormat_def andThen_def)
qed

text \<open>
  C4, counterexample to the claim as stated: for the indices 0, 1, 2 passed as a 16-bit
  array the stored format is \<open>UInt16\<close>, as the test suite expects, while the minimal width
  holding every value is 8 bits.
\<close>

theorem setIndices_format_counterexample:
  "storedFormat (setIndices (Some indices16) newModelMesh) = Some UInt16 \<and>
   minimalFormat (indexValues (snd indices16)) = UInt8"
  by (simp add: storedFormat_def setIndices_def newModelMesh_def indices16_def formatOf_def
      minimalFormat_def indexValues_def)

text \<open>
  C7. After \<open>uploadData(true)\<close> every setter and getter of the mesh - positions, every
  other attribute kind (colors, normals, UV to UV7, tangents, weights, joints) and the
  indices - fails with \<open>AccessDenied\<close>, whose message is "Not allowed to access data
  while accessible is false."; the failure is the result of the call.
\<close>

theorem released_mesh_access_denied:
  "setPositions values (uploadData True m) = Inl AccessDenied \<and>
   setAttribute kind values (uploadData True m) = Inl AccessDenied \<and>
   getAttribute kind (uploadData True m) = Inl AccessDenied \<and>
   setIndices ivalues (uploadData True m) = Inl AccessDenied \<and>
   getIndices (uploadData True m) = Inl AccessDenied \<and>
   message AccessDenied = ''Not allowed to access data while accessible is false.''"
  by (simp add: uploadData_def Let_def setPositions_def setAttribute_def getAttribute_def
      setIndices_def getIndices_def message_def)

lemma uploadData_keeps:
  "attributes (uploadData False m) = attributes m \<and> indices (uploadData False m) = indices m \<and>
   accessible (uploadData False m) = accessible m \<and>
   meshVertexCount (uploadData False m) = meshVertexCount m"
  by (simp add: uploadData_def Let_def)

text \<open>
  C8. On an accessible mesh, setting an attribute to an array whose length is the vertex count
  succeeds, and the matching getter then returns that very instance; it still does after
  \<open>uploadData(false)\<close> and after setting any other attribute, and no longer after
  \<open>uploadData(true)\<close>, when the getter fails.
\<close>

theorem set_get_same_instance:
  assumes "accessible m" and "length (snd values) = meshVertexCount m"
  shows "\<exists>m'. setAttribute kind values m = Inr m' \<and>
           accessible m' \<and> meshVertexCount m' = meshVertexCount m \<and>
           getAttribute kind m' = Inr (Some values) \<and>
           getAttribute kind (uploadData False m') = Inr (Some values) \<and>
           getAttribute kind (uploadData True m') = Inl AccessDenied \<and>
           (\<forall>kind' values' m''. kind' \<noteq> kind \<and> setAttribute kind' values' m' = Inr m'' \<longrightarrow>
              getAttribute kind m'' = Inr (Some values) \<and>
              getAttribute kind (uploadData False m'') = Inr (Some values))"
  using assms
  by (auto simp: setAttribute_def setPositions_def getAttribute_def uploadData_def Let_def
      split: if_splits)

text \<open>
  C8, witness: three positions, then colors of length three; the colors are read back, also
  after an upload without release and after setting the normals.
\<close>

theorem set_get_same_instance_witness:
  "andThen (andThen (setPositions (vectors 1 3) newModelMesh) (setAttribute Colors (vectors 3 3)))
     (getAttribute Colors) = Inr (Some (vectors 3 3)) \<and>
   andThen (andThen (andThen (setPositions (vectors 1 3) newModelMesh)
     (setAttribute Colors (vectors 3 3))) (upload False)) (getAttribute Colors) =
     Inr (Some (vectors 3 3)) \<and>
   andThen (andThen (andThen (setPositions (vectors 1 3) newModelMesh)
     (setAttribute Colors (vectors 3 3))) (setAttribute Normals (vectors 4 3)))
     (getAttribute Colors) = Inr (Some (vectors 3 3))"
proof -
  obtain m1 where m1: "setPositions (vectors 1 3) newModelMesh = Inr m1" "accessible m1"
    "meshVertexCount m1 = 3"
    by (simp add: setPositions_def newModelMesh_def vectors_def)
  have len: "length (snd (vectors 3 3)) = meshVertexCount m1"
    "length (snd (vectors 4 3)) = meshVertexCount m1"
    by (simp_all add: m1 vectors_def)
  from set_get_same_instance [OF m1(2) len(1), of Colors]
  obtain m2 where m2: "setAttribute Colors (vectors 3 3) m1 = Inr m2"
    "accessible m2" "meshVertexCount m2 = meshVertexCount m1"
    "getAttribute Colors m2 = Inr (Some (vectors 3 3))"
    "getAttribute Colors (uploadData False m2) = Inr (Some (vectors 3 3))"
    and later: "\<And>kind' values' m''. kind' \<noteq> Colors \<Longrightarrow>
       setAttribute kind' values' m2 = Inr m'' \<Longrightarrow>
       getAttribute Colors m'' = Inr (Some (vectors 3 3))"
    by blast
  have len2: "length (snd (vectors 4 3)) = meshVertexCount m2"
    by (simp add: m2 len)
  from set_get_same_instance [OF m2(2) len2, of Normals]
  obtain m3 where m3: "setAttribute Normals (vectors 4 3) m2 = Inr m3"
    by blast
  have "getAttribute Colors m3 = Inr (Some (vectors 3 3))"
    by (rule later [OF _ m3]) simp
  with m1 m2 m3 show ?thesis
    by (simp add: andThen_def upload_def)
qed

lemma mesh_test_set_position_data:
  "andThen (setPositions (vectors 2 4) newModelMesh) (\<lambda>m. Inr (meshVertexCount m)) = Inr 4 \<and>
   andThen (andThen (setPositions (vectors 2 4) newModelMesh) (setPositions (vectors 1 3)))
     (\<lambda>m. Inr (meshVertexCount m)) = Inr 3"
  by (simp add: andThen_def setPositions_def newModelMesh_def vectors_def)

lemma mesh_test_not_same_size:
  "andThen (setPositions (vectors 1 3) newModelMesh) (setAttribute kind (vectors 9 1)) =
     (if kind = Positions
      then andThen (setPositions (vectors 1 3) newModelMesh) (setPositions (vectors 9 1))
      else Inl SizeMismatch) \<and>
   message SizeMismatch = ''The array provided needs to be the same size as vertex count.''"
  by (simp add: andThen_def setPositions_def setAttribute_def newModelMesh_def vectors_def
      message_def)

lemma mesh_test_upload_reallocates:
  "andThen (andThen (andThen (setPositions (vectors 1 3) newModelMesh) (upload False))
     (setPositions (vectors 2 4))) (\<lambda>m. Inr (vertexCountChanged m, verticesFloat32 m))
     = Inr (True, Some 0) \<and>
   andThen (andThen (andThen (andThen (setPositions (vectors 1 3) newModelMesh) (upload False))
     (setPositions (vectors 2 4))) (upload False)) (\<lambda>m. Inr (verticesFloat32 m))
     = Inr (Some 1) \<and>
   andThen (andThen (setIndices (Some indices8) newModelMesh) (setIndices None)) getIndices
     = Inr None"
  by (simp add: andThen_def setPositions_def setIndices_def getIndices_def upload_def
      uploadData_def Let_def newModelMesh_def vectors_def indices8_def)

end
